theory Spec2Isabelle
  imports Complex_Main "HOL-Library.Sublist"
begin

section \<open>Common JavaScript values\<close>

text \<open>
  A thrown JavaScript error, by constructor, with its message. Every \<open>throw\<close> of the
  source is an \<open>Inl\<close> branch of the function that models it.
\<close>

datatype error = Error string | TypeError string

text \<open>
  A user object \<open>{ id, ... }\<close>. The property \<open>id\<close> may be absent (\<open>None\<close>) or the
  empty string; both are falsy.
\<close>

datatype user = User (user_id: "string option")

text \<open>A value that may be an object, \<open>null\<close> or \<open>undefined\<close>.\<close>

datatype 'a nullable = Undefined | Null | Val 'a

definition truthy_string :: "string option \<Rightarrow> bool" where
  "truthy_string s = (case s of None \<Rightarrow> False | Some v \<Rightarrow> v \<noteq> [])"

section \<open>Ambient request context (shared/localStorage.ts)\<close>

text \<open>
  The class \<open>LocalStorage\<close>: the private fields \<open>_user\<close> (\<open>None\<close> is \<open>null\<close>) and
  \<open>_userSet\<close>, the public \<open>urls\<close> and \<open>connection\<close>.
\<close>

record LocalStorage =
  urls :: "string \<times> string"
  priv_user :: "user option"
  priv_userSet :: bool
  connection :: "string option"

text \<open>The constructor: \<open>_user = null\<close>, \<open>_userSet = false\<close>, \<open>connection = null\<close>.\<close>

definition new_LocalStorage :: "string \<times> string \<Rightarrow> LocalStorage" where
  "new_LocalStorage u =
     \<lparr>urls = u, priv_user = None, priv_userSet = False, connection = None\<rparr>"

text \<open>\<open>get user()\<close>.\<close>

definition get_user :: "LocalStorage \<Rightarrow> user option" where
  "get_user ls = priv_user ls"

text \<open>
  \<open>set user(user)\<close>: throws when the cell was already set, throws when the object has
  no truthy \<open>id\<close>, otherwise stores \<open>user ?? null\<close> and marks the cell as set.
\<close>

definition set_user :: "user nullable \<Rightarrow> LocalStorage \<Rightarrow> error + LocalStorage" where
  "set_user u ls =
     (if priv_userSet ls then Inl (Error ''Local context user already set'')
      else case u of
        Val (User i) \<Rightarrow>
          (if \<not> truthy_string i then Inl (TypeError ''User ID is required'')
           else Inr (ls\<lparr>priv_user := Some (User i), priv_userSet := True\<rparr>))
      | _ \<Rightarrow> Inr (ls\<lparr>priv_user := None, priv_userSet := True\<rparr>))"

text \<open>
  The module-level \<open>asyncLocal\<close> is an \<open>AsyncLocalStorage\<close> of Node: the store that
  the running code sees is the one of the innermost \<open>run\<close> or \<open>exit\<close> around it. The
  model passes that store to the code as an argument: a callback is a function of the
  store it runs under (\<open>None\<close> when there is none).
\<close>

type_synonym 'a scoped = "LocalStorage option \<Rightarrow> 'a"

definition asyncLocal_run :: "LocalStorage \<Rightarrow> 'a scoped \<Rightarrow> 'a scoped" where
  "asyncLocal_run ls fn = (\<lambda>store. fn (Some ls))"

definition asyncLocal_exit :: "'a scoped \<Rightarrow> 'a scoped" where
  "asyncLocal_exit callback = (\<lambda>store. callback None)"

text \<open>\<open>LocalStorage.exit(callback)\<close>.\<close>

definition exit :: "'a scoped \<Rightarrow> 'a scoped" where
  "exit callback = asyncLocal_exit callback"

text \<open>\<open>getLocalStorage()\<close>.\<close>

definition getLocalStorage :: "(error + LocalStorage) scoped" where
  "getLocalStorage = (\<lambda>store.
     case store of
       None \<Rightarrow> Inl (Error ''Runtime not available'')
     | Some l \<Rightarrow> Inr l)"

text \<open>\<open>withLocalStorage(localStorage, fn)\<close>.\<close>

definition withLocalStorage :: "LocalStorage \<Rightarrow> 'a scoped \<Rightarrow> (error + 'a) scoped" where
  "withLocalStorage localStorage fn = (\<lambda>store.
     if store \<noteq> None then Inl (Error ''Can't nest runtimes'')
     else Inr (asyncLocal_run localStorage fn store))"

section \<open>Strings\<close>

text \<open>
  A string is a list of 8-bit characters. \<open>split_on c s\<close> is \<open>s.split(c)\<close> for a
  one-character separator: it never returns the empty list, so \<open>.pop()\<close> on the result
  is its last element.
\<close>

fun split_on :: "char \<Rightarrow> string \<Rightarrow> string list" where
  "split_on c [] = [[]]"
| "split_on c (x # xs) =
     (if x = c then [] # split_on c xs
      else (case split_on c xs of
              [] \<Rightarrow> [[x]]
            | p # ps \<Rightarrow> (x # p) # ps))"

text \<open>\<open>join c parts\<close> is \<open>parts.join(c)\<close>.\<close>

fun join :: "string \<Rightarrow> string list \<Rightarrow> string" where
  "join c [] = []"
| "join c [p] = p"
| "join c (p # q # ps) = p @ c @ join c (q # ps)"

text \<open>
  The characters that \<open>.\<close> of a regular expression does not match: line feed and
  carriage return (the other two line terminators of JavaScript, U+2028 and U+2029, are
  not 8-bit characters).
\<close>

definition line_terminator :: "char \<Rightarrow> bool" where
  "line_terminator c = (c = CHR 0x0A \<or> c = CHR 0x0D)"

definition one_line :: "string \<Rightarrow> bool" where
  "one_line s = (\<forall>c \<in> set s. \<not> line_terminator c)"

text \<open>The rest of the string after the first occurrence of \<open>p\<close>, if there is one.\<close>

fun find_after :: "string \<Rightarrow> string \<Rightarrow> string option" where
  "find_after p [] = (if p = [] then Some [] else None)"
| "find_after p (c # cs) =
     (if prefix p (c # cs) then Some (drop (length p) (c # cs)) else find_after p cs)"

section \<open>Queue dispatcher (the batch handler of SQS messages)\<close>

subsection \<open>Messages, modules and the queue backend\<close>

text \<open>
  An \<open>SQSMessage\<close>. \<open>MessageGroupId\<close> is the field of \<open>attributes\<close>;
  \<open>messageAttributes\<close> maps a name to its \<open>stringValue\<close>.
\<close>

record SQSMessage =
  messageId :: string
  body :: string
  eventSourceARN :: string
  receiptHandle :: string
  MessageGroupId :: "string option"
  messageAttributes :: "string \<Rightarrow> string option"

text \<open>The payload handed to the handler: a parsed JSON document or the raw body.\<close>

datatype payload = Parsed string | Raw string

text \<open>
  The metadata of \<open>getMetadata\<close>. The fields \<open>params\<close>, \<open>receivedCount\<close>, \<open>sentAt\<close>
  and \<open>sequenceNumber\<close> are conversions of the message's attributes that no branch of
  the dispatcher reads; they are left out.
\<close>

record metadata =
  messageID :: string
  groupID :: "string option"
  queueName :: string
  md_user :: "user option"

text \<open>
  What \<open>Promise.race\<close> of the handler and the abort listener observes: the handler's
  promise resolves first, it rejects first, or the abort timer fires first. The handler
  of a module is given by this observation, as a function of the payload, the metadata
  and the deadline in seconds that the timer was set to.
\<close>

datatype settled = Resolved | Rejected | Aborted

record QueueConfig =
  cfg_timeout :: "real option"

text \<open>
  A loaded queue module: \<open>config\<close> (optional), \<open>handler\<close> and \<open>onError\<close> (optional;
  \<open>True\<close> when it returns, \<open>False\<close> when it throws).
\<close>

record queue_module =
  config :: "QueueConfig option"
  handler :: "payload \<Rightarrow> metadata \<Rightarrow> real \<Rightarrow> settled"
  onError :: "(metadata \<Rightarrow> bool) option"

text \<open>
  The SQS client: its region, and whether \<open>deleteMessage\<close> with a queue URL and a
  receipt handle resolves (\<open>True\<close>) or rejects.
\<close>

record sqs_client =
  region :: string
  deleteMessage :: "string \<Rightarrow> string \<Rightarrow> bool"

text \<open>
  What is outside the dispatcher: the module loader, \<open>JSON.parse\<close> (whether it
  accepts a body) and the host's \<open>getRemainingTimeInMillis\<close>, given as the value of
  its n-th call.
\<close>

record env =
  loadModule :: "string \<Rightarrow> queue_module option"
  json_parses :: "string \<Rightarrow> bool"
  getRemainingTimeInMillis :: "nat \<Rightarrow> real"

text \<open>What the dispatcher does to the outside, in the order it does it.\<close>

datatype event =
    Invoked string
  | Deleted string string
  | OnErrorCalled string

text \<open>The state threaded through a batch: the calls made to the oracle, and the trace.\<close>

record dispatch =
  calls :: nat
  trace :: "event list"

text \<open>Why a message failed inside the \<open>try\<close> block of \<open>handleOneMessage\<close>.\<close>

datatype failure =
    PayloadNotJSON
  | HandlerRejected
  | Timeout real
  | NoQueueURL
  | DeleteRejected

subsection \<open>The functions of the dispatcher\<close>

definition minTimeout :: real where "minTimeout = 1"
definition maxTimeout :: real where "maxTimeout = 30"
definition defaultTimeout :: real where "defaultTimeout = 10"

text \<open>\<open>getTimeout(config)\<close>, in seconds: \<open>config?.timeout ?? defaultTimeout\<close>, clamped.\<close>

definition getTimeout :: "QueueConfig option \<Rightarrow> real" where
  "getTimeout cfg =
     min (max (case cfg of
                 None \<Rightarrow> defaultTimeout
               | Some c \<Rightarrow> (case cfg_timeout c of None \<Rightarrow> defaultTimeout | Some t \<Rightarrow> t))
              minTimeout)
         maxTimeout"

text \<open>
  \<open>getQueueName(message)\<close>: the last \<open>:\<close>-separated part of the ARN, matched against
  \<open>/^.*?__(.*)$/\<close>. The match needs the part to hold no line terminator and gives what
  follows the first \<open>__\<close>; an empty or missing group throws.
\<close>

definition getQueueName :: "SQSMessage \<Rightarrow> error + string" where
  "getQueueName message =
     (let qualifiedName = last (split_on (CHR '':'') (eventSourceARN message));
          queueName = (if one_line qualifiedName then find_after ''__'' qualifiedName else None)
      in case queueName of
           None \<Rightarrow> Inl (Error (''Could not parse queue name from '' @ qualifiedName))
         | Some q \<Rightarrow>
             if q = [] then Inl (Error (''Could not parse queue name from '' @ qualifiedName))
             else Inr q)"

text \<open>
  The groups of \<open>(.*):(.*):(.*)$\<close> on the rest of the ARN: the first group is greedy, so
  the last two colons separate the three groups.
\<close>

definition arn_groups :: "string \<Rightarrow> (string \<times> string \<times> string) option" where
  "arn_groups r =
     (let parts = split_on (CHR '':'') r in
      if one_line r \<and> 3 \<le> length parts
      then Some (join '':'' (butlast (butlast parts)), last (butlast parts), last parts)
      else None)"

text \<open>The leftmost match of \<open>/arn:aws:sqs:(.*):(.*):(.*)$/\<close>.\<close>

fun match_arn :: "string \<Rightarrow> (string \<times> string \<times> string) option" where
  "match_arn [] = None"
| "match_arn (c # cs) =
     (if prefix ''arn:aws:sqs:'' (c # cs)
      then (case arn_groups (drop 12 (c # cs)) of
              Some g \<Rightarrow> Some g
            | None \<Rightarrow> match_arn cs)
      else match_arn cs)"

text \<open>\<open>getQueueURL(message)\<close>; \<open>None\<close> is the TypeError of \<open>null!.slice(1)\<close>.\<close>

definition getQueueURL :: "SQSMessage \<Rightarrow> string option" where
  "getQueueURL message =
     (case match_arn (eventSourceARN message) of
        None \<Rightarrow> None
      | Some (reg, accountId, qn) \<Rightarrow>
          Some (''https://sqs.'' @ reg @ ''.amazonaws.com/'' @ accountId @ ''/'' @ qn))"

text \<open>\<open>getPayload(message)\<close>; \<open>None\<close> is the SyntaxError of \<open>JSON.parse\<close>.\<close>

definition getPayload :: "env \<Rightarrow> SQSMessage \<Rightarrow> payload option" where
  "getPayload e message =
     (let type = messageAttributes message ''type'' in
      if type = Some ''application/json''
      then (if json_parses e (body message) then Some (Parsed (body message)) else None)
      else if truthy_string type then Some (Raw (body message))
      else if json_parses e (body message) then Some (Parsed (body message))
      else Some (Raw (body message)))"

definition getMetadata :: "SQSMessage \<Rightarrow> string \<Rightarrow> metadata" where
  "getMetadata message qn =
     (let userId = messageAttributes message ''userId'' in
      \<lparr>messageID = messageId message,
       groupID = MessageGroupId message,
       queueName = qn,
       md_user = (if truthy_string userId then Some (User userId) else None)\<rparr>)"

text \<open>
  The \<open>try\<close> block of \<open>handleOneMessage\<close>: the payload, the race of the handler
  against the timer, and the deletion of the message unless the region is
  \<open>localhost\<close>. It returns the events it caused and the failure that was thrown, if any.
\<close>

definition try_message ::
  "env \<Rightarrow> sqs_client \<Rightarrow> queue_module \<Rightarrow> SQSMessage \<Rightarrow> metadata \<Rightarrow> real \<Rightarrow>
   event list \<times> failure option" where
  "try_message e sqs module' message md timeout =
     (case getPayload e message of
        None \<Rightarrow> ([], Some PayloadNotJSON)
      | Some p \<Rightarrow>
          (case handler module' p md timeout of
             Rejected \<Rightarrow> ([Invoked (messageId message)], Some HandlerRejected)
           | Aborted \<Rightarrow> ([Invoked (messageId message)], Some (Timeout timeout))
           | Resolved \<Rightarrow>
               if region sqs \<noteq> ''localhost''
               then (case getQueueURL message of
                       None \<Rightarrow> ([Invoked (messageId message)], Some NoQueueURL)
                     | Some url \<Rightarrow>
                         if deleteMessage sqs url (receiptHandle message)
                         then ([Invoked (messageId message),
                                Deleted url (receiptHandle message)], None)
                         else ([Invoked (messageId message)], Some DeleteRejected))
               else ([Invoked (messageId message)], None)))"

text \<open>
  \<open>handleOneMessage\<close> up to its effects: the value it returns (\<open>Inl\<close> when it throws)
  and the events it causes. The \<open>catch\<close> block calls \<open>onError\<close> when the module has
  one and returns \<open>false\<close> whether \<open>onError\<close> throws or not.
\<close>

definition attempt ::
  "env \<Rightarrow> sqs_client \<Rightarrow> SQSMessage \<Rightarrow> real \<Rightarrow> (error + bool) \<times> event list" where
  "attempt e sqs message remainingTime =
     (case getQueueName message of
        Inl err \<Rightarrow> (Inl err, [])
      | Inr qn \<Rightarrow>
          (case loadModule e (''queues/'' @ qn) of
             None \<Rightarrow> (Inl (Error (''No handler for queue '' @ qn)), [])
           | Some module' \<Rightarrow>
               (let timeout = min (getTimeout (config module')) remainingTime in
                if timeout \<le> 0 then (Inr False, [])
                else
                  (let md = getMetadata message qn in
                   case try_message e sqs module' message md timeout of
                     (evs, None) \<Rightarrow> (Inr True, evs)
                   | (evs, Some f) \<Rightarrow>
                       (Inr False,
                        evs @ (case onError module' of
                                 None \<Rightarrow> []
                               | Some h \<Rightarrow> [OnErrorCalled (messageId message)]))))))"

definition handleOneMessage ::
  "env \<Rightarrow> sqs_client \<Rightarrow> SQSMessage \<Rightarrow> real \<Rightarrow> dispatch \<Rightarrow> (error + bool) \<times> dispatch" where
  "handleOneMessage e sqs message remainingTime st =
     (case attempt e sqs message remainingTime of
        (r, evs) \<Rightarrow> (r, st\<lparr>trace := trace st @ evs\<rparr>))"

text \<open>One call of the host's oracle.\<close>

definition ask_remaining :: "env \<Rightarrow> dispatch \<Rightarrow> real \<times> dispatch" where
  "ask_remaining e st = (getRemainingTimeInMillis e (calls st), st\<lparr>calls := Suc (calls st)\<rparr>)"

text \<open>
  \<open>handleFifoMessages\<close>: the loop shifts the messages off the batch one by one; at the
  first message that is not successful it returns that message and the ones still in the
  batch. A throw of \<open>handleOneMessage\<close> rejects the whole call.
\<close>

fun handleFifoMessages ::
  "env \<Rightarrow> sqs_client \<Rightarrow> SQSMessage list \<Rightarrow> dispatch \<Rightarrow> (error + string list) \<times> dispatch" where
  "handleFifoMessages e sqs [] st = (Inr [], st)"
| "handleFifoMessages e sqs (message # messages) st =
     (case ask_remaining e st of
        (t, st1) \<Rightarrow>
          (case handleOneMessage e sqs message t st1 of
             (Inl err, st2) \<Rightarrow> (Inl err, st2)
           | (Inr successful, st2) \<Rightarrow>
               if \<not> successful
               then (Inr (map messageId (message # messages)), st2)
               else handleFifoMessages e sqs messages st2))"

text \<open>
  \<open>handleStandardMessages\<close>. Every element of \<open>messages.map\<close> asks the oracle and
  enters \<open>handleOneMessage\<close> at once, in batch order; the handlers then run
  concurrently. The model runs them one after the other in batch order, which is one of
  the schedules; \<open>Promise.all\<close> keeps the results in batch order, and rejects when one of
  them threw. \<open>filter(Boolean)\<close> drops \<open>null\<close> and the empty id.
\<close>

fun standard_results ::
  "env \<Rightarrow> sqs_client \<Rightarrow> SQSMessage list \<Rightarrow> dispatch \<Rightarrow> (error + bool) list \<times> dispatch" where
  "standard_results e sqs [] st = ([], st)"
| "standard_results e sqs (message # messages) st =
     (case ask_remaining e st of
        (t, st1) \<Rightarrow>
          (case handleOneMessage e sqs message t st1 of
             (r, st2) \<Rightarrow>
               (case standard_results e sqs messages st2 of
                  (rs, st3) \<Rightarrow> (r # rs, st3))))"

fun failedMessageIds :: "SQSMessage list \<Rightarrow> (error + bool) list \<Rightarrow> error + string list" where
  "failedMessageIds (m # ms) (Inl err # rs) = Inl err"
| "failedMessageIds (m # ms) (Inr ok # rs) =
     (case failedMessageIds ms rs of
        Inl err \<Rightarrow> Inl err
      | Inr ids \<Rightarrow> Inr (if \<not> ok \<and> messageId m \<noteq> [] then messageId m # ids else ids))"
| "failedMessageIds _ _ = Inr []"

definition handleStandardMessages ::
  "env \<Rightarrow> sqs_client \<Rightarrow> SQSMessage list \<Rightarrow> dispatch \<Rightarrow> (error + string list) \<times> dispatch" where
  "handleStandardMessages e sqs messages st =
     (case standard_results e sqs messages st of
        (rs, st') \<Rightarrow> (failedMessageIds messages rs, st'))"

text \<open>\<open>isFifoQueue(message)\<close>: the queue name ends with \<open>.fifo\<close>.\<close>

definition isFifoQueue :: "SQSMessage \<Rightarrow> error + bool" where
  "isFifoQueue message =
     (case getQueueName message of
        Inl err \<Rightarrow> Inl err
      | Inr qn \<Rightarrow> Inr (suffix ''.fifo'' qn))"

text \<open>
  \<open>handleSQSMessages\<close>: the first message of the batch decides. On an empty batch
  \<open>messages[0]\<close> is \<open>undefined\<close> and reading its ARN is a TypeError.
\<close>

definition handleSQSMessages ::
  "env \<Rightarrow> sqs_client \<Rightarrow> SQSMessage list \<Rightarrow> dispatch \<Rightarrow> (error + string list) \<times> dispatch" where
  "handleSQSMessages e sqs messages st =
     (case messages of
        [] \<Rightarrow> (Inl (TypeError ''Cannot read properties of undefined''), st)
      | first # _ \<Rightarrow>
          (case isFifoQueue first of
             Inl err \<Rightarrow> (Inl err, st)
           | Inr fifo \<Rightarrow>
               if fifo then handleFifoMessages e sqs messages st
               else handleStandardMessages e sqs messages st))"

text \<open>The deletions and the handler invocations of a trace, in order.\<close>

fun deletions :: "event list \<Rightarrow> (string \<times> string) list" where
  "deletions [] = []"
| "deletions (Deleted url h # evs) = (url, h) # deletions evs"
| "deletions (_ # evs) = deletions evs"

fun invocations :: "event list \<Rightarrow> string list" where
  "invocations [] = []"
| "invocations (Invoked i # evs) = i # invocations evs"
| "invocations (_ # evs) = invocations evs"

subsection \<open>The per-record handler of the Lambda runtime (runtime/src/sqs.ts)\<close>

text \<open>\<open>isFifo(message)\<close>: \<open>!!message.attributes.MessageGroupId\<close>.\<close>

definition isFifo :: "SQSMessage \<Rightarrow> bool" where
  "isFifo message = truthy_string (MessageGroupId message)"

text \<open>The messages that \<open>handleUnorderedMessages\<close> handles in parallel.\<close>

definition unordered_messages :: "SQSMessage list \<Rightarrow> SQSMessage list" where
  "unordered_messages messages = filter (\<lambda>message. \<not> isFifo message) messages"

text \<open>
  The \<open>groups\<close> map that \<open>handleFifoMessages\<close> of this file builds: a message with a
  group id is pushed to the list of its group, a new group goes last.
\<close>

fun group_push ::
  "string \<Rightarrow> SQSMessage \<Rightarrow> (string \<times> SQSMessage list) list \<Rightarrow> (string \<times> SQSMessage list) list" where
  "group_push g m [] = [(g, [m])]"
| "group_push g m ((g', ms) # groups) =
     (if g' = g then (g', ms @ [m]) # groups else (g', ms) # group_push g m groups)"

fun fifo_groups ::
  "SQSMessage list \<Rightarrow> (string \<times> SQSMessage list) list \<Rightarrow> (string \<times> SQSMessage list) list" where
  "fifo_groups [] groups = groups"
| "fifo_groups (message # messages) groups =
     (if isFifo message
      then (case MessageGroupId message of
              None \<Rightarrow> fifo_groups messages groups
            | Some g \<Rightarrow> fifo_groups messages (group_push g message groups))
      else fifo_groups messages groups)"

text \<open>What the deletion of a message is: its queue URL and its receipt handle.\<close>

definition deletion_of :: "SQSMessage \<Rightarrow> string \<times> string" where
  "deletion_of m =
     (case getQueueURL m of
        None \<Rightarrow> ([], receiptHandle m)
      | Some url \<Rightarrow> (url, receiptHandle m))"

subsection \<open>A batch to run the dispatcher on\<close>

definition fifo_arn :: string where
  "fifo_arn = ''arn:aws:sqs:us-east-2:1234:app__jobs.fifo''"

definition standard_arn :: string where
  "standard_arn = ''arn:aws:sqs:us-east-2:1234:app__jobs''"

definition example_message :: "string \<Rightarrow> string \<Rightarrow> string option \<Rightarrow> SQSMessage" where
  "example_message arn i g =
     \<lparr>messageId = i, body = ''{}'', eventSourceARN = arn, receiptHandle = ''rh-'' @ i,
      MessageGroupId = g, messageAttributes = (\<lambda>n. None)\<rparr>"

text \<open>A module whose handler rejects the message \<open>B\<close> and resolves on every other one.\<close>

definition example_module :: queue_module where
  "example_module =
     \<lparr>config = None,
      handler = (\<lambda>p md d. if messageID md = ''B'' then Rejected else Resolved),
      onError = None\<rparr>"

definition example_env :: env where
  "example_env =
     \<lparr>loadModule = (\<lambda>n. if n = ''queues/jobs.fifo'' \<or> n = ''queues/jobs''
                         then Some example_module else None),
      json_parses = (\<lambda>b. True),
      getRemainingTimeInMillis = (\<lambda>n. 60000)\<rparr>"

definition remote_sqs :: sqs_client where
  "remote_sqs = \<lparr>region = ''us-east-2'', deleteMessage = (\<lambda>url h. True)\<rparr>"

definition local_sqs :: sqs_client where
  "local_sqs = \<lparr>region = ''localhost'', deleteMessage = (\<lambda>url h. True)\<rparr>"

definition start :: dispatch where
  "start = \<lparr>calls = 0, trace = []\<rparr>"

section \<open>Manifest loader\<close>

text \<open>The decimal digits of a natural number, as \<open>String(n)\<close> prints it.\<close>

definition digit :: "nat \<Rightarrow> char" where
  "digit n = ''0123456789'' ! (n mod 10)"

fun show_nat :: "nat \<Rightarrow> string" where
  "show_nat n = (if n < 10 then [digit n] else show_nat (n div 10) @ [digit (n mod 10)])"

declare show_nat.simps [simp del]

text \<open>
  A value of \<open>config.timeout\<close>: \<open>undefined\<close> or \<open>null\<close>, a value that is not a
  number, or a number (seconds).
\<close>

datatype config_value = NotSet | NotNumber | Number real

text \<open>
  \<open>getTimeout(config, { max, default })\<close> of the manifest loader: the default when
  nothing is configured, an error for a value that is not a number, below 1 or above
  \<open>max\<close>. The loader calls it with \<open>max: 500, default: 30\<close> for a queue and with
  \<open>max: 30, default: 30\<close> for a route.
\<close>

definition getTimeout_manifest :: "config_value \<Rightarrow> nat \<Rightarrow> real \<Rightarrow> error + real" where
  "getTimeout_manifest timeout mx def =
     (case timeout of
        NotSet \<Rightarrow> Inr def
      | NotNumber \<Rightarrow> Inl (Error ''config.timeout must be a number (seconds)'')
      | Number t \<Rightarrow>
          if t < 1 then Inl (Error ''config.timeout must be at least 1 second'')
          else if t > real mx
          then Inl (Error (''config.timeout cannot be more than '' @ show_nat mx @ '' seconds''))
          else Inr t)"

subsection \<open>From a file name to a route path\<close>

text \<open>
  \<open>path.basename\<close>, \<open>path.extname\<close> and \<open>path.dirname\<close> of Node, for the paths
  that the glob yields: relative, separated by single slashes, with no trailing slash.
  \<open>String.prototype.normalize\<close> leaves 8-bit strings of ASCII characters as they are.
\<close>

definition last_part :: "string \<Rightarrow> string" where
  "last_part f = last (split_on (CHR ''/'') f)"

fun last_dot :: "string \<Rightarrow> nat option" where
  "last_dot [] = None"
| "last_dot (c # cs) =
     (case last_dot cs of
        Some i \<Rightarrow> Some (Suc i)
      | None \<Rightarrow> if c = CHR ''.'' then Some 0 else None)"

definition extname :: "string \<Rightarrow> string" where
  "extname f =
     (let b = last_part f in
      if b = ''..'' then []
      else case last_dot b of
             None \<Rightarrow> []
           | Some i \<Rightarrow> if i = 0 then [] else drop i b)"

definition basename :: "string \<Rightarrow> string \<Rightarrow> string" where
  "basename f ext =
     (let b = last_part f in
      if ext \<noteq> [] \<and> suffix ext b \<and> b \<noteq> ext then take (length b - length ext) b else b)"

definition dirname :: "string \<Rightarrow> string" where
  "dirname f =
     (let parts = split_on (CHR ''/'') f in
      if length parts \<le> 1 then ''.'' else join ''/'' (butlast parts))"

text \<open>
  One part of \<open>renamePathProperties\<close>:
  \<open>part.replace(/^\[\.{3}(.*)\]$/, ":$1*").replace(/^\[(.*)\]$/, ":$1")\<close>.
\<close>

definition rename_catch_all :: "string \<Rightarrow> string" where
  "rename_catch_all part =
     (if prefix ''[...'' part \<and> suffix '']'' part \<and> 5 \<le> length part \<and>
         one_line (butlast (drop 4 part))
      then '':'' @ butlast (drop 4 part) @ ''*''
      else part)"

definition rename_parameter :: "string \<Rightarrow> string" where
  "rename_parameter part =
     (if prefix ''['' part \<and> suffix '']'' part \<and> 2 \<le> length part \<and>
         one_line (butlast (drop 1 part))
      then '':'' @ butlast (drop 1 part)
      else part)"

definition renamePathProperties :: "string \<Rightarrow> string" where
  "renamePathProperties filename =
     join ''/'' (map (\<lambda>part. rename_parameter (rename_catch_all part))
                     (split_on (CHR ''/'') filename))"

text \<open>\<open>replace(/\/+/g, "/")\<close>: a run of slashes becomes one slash.\<close>

fun collapse_slashes :: "string \<Rightarrow> string" where
  "collapse_slashes (a # b # cs) =
     (if a = CHR ''/'' \<and> b = CHR ''/'' then collapse_slashes (b # cs)
      else a # collapse_slashes (b # cs))"
| "collapse_slashes cs = cs"

text \<open>\<open>expandNestedRoutes\<close>: every dot becomes a slash, then the runs are collapsed.\<close>

definition expandNestedRoutes :: "string \<Rightarrow> string" where
  "expandNestedRoutes filename =
     collapse_slashes (map (\<lambda>c. if c = CHR ''.'' then CHR ''/'' else c) filename)"

text \<open>The class \<open>[a-z0-9_-]\<close> under the flag \<open>i\<close>.\<close>

definition name_char :: "char \<Rightarrow> bool" where
  "name_char c =
     (let n = (of_char c :: nat) in
      (97 \<le> n \<and> n \<le> 122) \<or> (65 \<le> n \<and> n \<le> 90) \<or> (48 \<le> n \<and> n \<le> 57) \<or>
      c = CHR ''_'' \<or> c = CHR ''-'')"

text \<open>
  \<open>isValidPathPart\<close> tests \<open>/^([a-z0-9_-]+)|(:[a-z0-9_-]+\*?)$/i\<close>. The alternation
  binds weaker than the anchors: a part passes when it starts with a character of the class,
  or when it ends with a colon, a non-empty name and an optional star.
\<close>

definition ends_with_parameter :: "string \<Rightarrow> bool" where
  "ends_with_parameter part =
     (let r = rev part;
          r' = (case r of c # cs \<Rightarrow> if c = CHR ''*'' then cs else r | [] \<Rightarrow> r)
      in takeWhile name_char r' \<noteq> [] \<and> prefix '':'' (dropWhile name_char r'))"

definition isValidPathPart :: "string \<Rightarrow> bool" where
  "isValidPathPart part =
     ((case part of [] \<Rightarrow> False | c # cs \<Rightarrow> name_char c) \<or> ends_with_parameter part)"

text \<open>A key of \<open>path-to-regexp\<close>: the name of a parameter and its modifier.\<close>

record key =
  key_name :: string
  key_modifier :: string

text \<open>\<open>keys.findIndex(({ modifier }) => modifier === "*")\<close>; \<open>None\<close> is -1.\<close>

fun findIndex :: "('a \<Rightarrow> bool) \<Rightarrow> 'a list \<Rightarrow> nat option" where
  "findIndex P [] = None"
| "findIndex P (x # xs) =
     (if P x then Some 0 else map_option Suc (findIndex P xs))"

text \<open>
  \<open>verifyPathParameters(path)\<close>. The parser \<open>pathToRegexp\<close> is a function of the
  package \<open>path-to-regexp\<close>: it is a parameter, giving the keys of a path or the
  error it throws.
\<close>

definition verifyPathParameters :: "(string \<Rightarrow> error + key list) \<Rightarrow> string \<Rightarrow> error option" where
  "verifyPathParameters pathToRegexp path =
     (case pathToRegexp path of
        Inl err \<Rightarrow> Some err
      | Inr keys \<Rightarrow>
          if card (set (map key_name keys)) < length keys
          then Some (Error ''Found two parameters with the same name'')
          else if (case findIndex (\<lambda>k. key_modifier k = ''*'') keys of
                     None \<Rightarrow> False
                   | Some catchAll \<Rightarrow> Suc catchAll \<noteq> length keys)
          then Some (Error ''The catch-all parameter can only come at the end of the path'')
          else if \<not> list_all isValidPathPart (split_on (CHR ''/'') path)
          then Some (Error ''Path parts may only be alphanumeric, dash, underscore, or dot'')
          else None)"

text \<open>\<open>pathFromFilename(filename)\<close>.\<close>

definition pathFromFilename :: "(string \<Rightarrow> error + key list) \<Rightarrow> string \<Rightarrow> error + string" where
  "pathFromFilename pathToRegexp filename =
     (let base = basename filename (extname filename);
          directory = dirname filename;
          withoutIndex = (if base = ''index'' then directory else directory @ ''/'' @ base);
          renamed = renamePathProperties withoutIndex;
          expanded = expandNestedRoutes renamed
      in case verifyPathParameters pathToRegexp expanded of
           Some err \<Rightarrow> Inl err
         | None \<Rightarrow> Inr expanded)"

text \<open>
  The shape of a path, \<open>path.replace(/:(.*?)(\/|$)/g, ":$2")\<close>: from each colon, what
  follows up to the next slash or the end is dropped. A colon followed by a line
  terminator before the next slash is no match and stays, with what follows it.
\<close>

function signature :: "string \<Rightarrow> string" where
  "signature [] = []"
| "signature (c # cs) =
     (if c = CHR '':'' \<and> one_line (takeWhile (\<lambda>x. x \<noteq> CHR ''/'') cs)
      then (case dropWhile (\<lambda>x. x \<noteq> CHR ''/'') cs of
              [] \<Rightarrow> '':''
            | d # rest \<Rightarrow> CHR '':'' # d # signature rest)
      else c # signature cs)"
  by pat_completeness auto
termination
proof (relation "measure length")
  fix c :: char and cs :: string and d rest
  assume "dropWhile (\<lambda>x. x \<noteq> CHR ''/'') cs = d # rest"
  then have "length (d # rest) \<le> length cs"
    by (metis length_dropWhile_le)
  then show "(rest, c # cs) \<in> measure length" by simp
qed simp_all

declare signature.simps [simp del]

text \<open>\<open>queue.path.replace(/^\/?(.*?)\/?$/g, "$1")\<close>: one leading and one trailing slash go.\<close>

definition strip_slashes :: "string \<Rightarrow> string" where
  "strip_slashes p =
     (if \<not> one_line p then p
      else (let q = (if prefix ''/'' p then drop 1 p else p)
            in if suffix ''/'' q then butlast q else q))"

text \<open>\<open>filename.replace(/^api\//, "")\<close>.\<close>

definition strip_api :: "string \<Rightarrow> string" where
  "strip_api filename = (if prefix ''api/'' filename then drop 4 filename else filename)"

subsection \<open>Routes and queues of the manifest\<close>

text \<open>The double quote, for the messages that quote a file name.\<close>

definition dq :: string where
  "dq = [CHR 0x22]"

text \<open>\<open>String(error)\<close>, as the template \<open>`${error}`\<close> prints a thrown error.\<close>

definition error_string :: "error \<Rightarrow> string" where
  "error_string err =
     (case err of Error m \<Rightarrow> ''Error: '' @ m | TypeError m \<Rightarrow> ''TypeError: '' @ m)"

text \<open>The error that the \<open>catch\<close> of a loop of the loader rethrows.\<close>

definition in_file :: "string \<Rightarrow> error \<Rightarrow> error" where
  "in_file filename err = Error (''Error in '' @ dq @ filename @ dq @ '': '' @ error_string err)"

text \<open>
  The \<open>config\<close> of a route module, as far as the loader reads it. \<open>accepts\<close> and
  \<open>methods\<close> are lists (a single string is the list of one element); \<open>None\<close> is an
  absent or falsy value.
\<close>

record RouteConfig =
  rc_accepts :: "string list option"
  rc_methods :: "string list option"
  rc_timeout :: config_value

record Queue =
  q_checkContentType :: "string \<Rightarrow> bool"
  q_filename :: string
  q_isFifo :: bool
  q_path :: "string option"
  q_queueName :: string
  q_timeout :: real

text \<open>
  A \<open>Route\<close>. Its \<open>match\<close> is \<open>match(path)\<close> of \<open>path-to-regexp\<close> for the path
  that is its key in the table; the record does not repeat it.
\<close>

record Route =
  r_checkContentType :: "string \<Rightarrow> bool"
  r_checkMethod :: "string \<Rightarrow> bool"
  r_filename :: string
  r_queue :: "Queue option"
  r_timeout :: real

text \<open>\<open>toUpperCase\<close> on ASCII letters.\<close>

definition upper_char :: "char \<Rightarrow> char" where
  "upper_char c =
     (case map_of (zip ''abcdefghijklmnopqrstuvwxyz'' ''ABCDEFGHIJKLMNOPQRSTUVWXYZ'') c of
        Some u \<Rightarrow> u
      | None \<Rightarrow> c)"

definition toUpperCase :: "string \<Rightarrow> string" where
  "toUpperCase s = map upper_char s"

definition letter :: "char \<Rightarrow> bool" where
  "letter c = (let n = (of_char c :: nat) in (97 \<le> n \<and> n \<le> 122) \<or> (65 \<le> n \<and> n \<le> 90))"

text \<open>\<open>/^[a-z]+\/([a-z]+|\*)$/i\<close>.\<close>

definition mime_pattern :: "string \<Rightarrow> bool" where
  "mime_pattern a =
     (case split_on (CHR ''/'') a of
        [t, sub] \<Rightarrow> t \<noteq> [] \<and> list_all letter t \<and> (sub = ''*'' \<or> (sub \<noteq> [] \<and> list_all letter sub))
      | _ \<Rightarrow> False)"

text \<open>\<open>checkContentType(config)\<close>: the acceptor of content types, or the error thrown.\<close>

definition checkContentType :: "string list option \<Rightarrow> error + (string \<Rightarrow> bool)" where
  "checkContentType accepts =
     (case accepts of
        None \<Rightarrow> Inr (\<lambda>type. True)
      | Some acc \<Rightarrow>
          if \<not> list_all mime_pattern acc
          then Inl (Error (''config.accepts lists acceptable MIME types, like '' @ dq @
                 ''application/json'' @ dq @ '' or '' @ dq @ ''text/*'' @ dq))
          else
            (let exact = filter (\<lambda>a. \<not> suffix ''/*'' a) acc;
                 primary = map (\<lambda>a. hd (split_on (CHR ''/'') a)) (filter (\<lambda>a. suffix ''/*'' a) acc)
             in Inr (\<lambda>type. type \<in> set exact \<or> hd (split_on (CHR ''/'') type) \<in> set primary)))"

text \<open>
  \<open>checkMethod(config)\<close>. Its validation runs over \<open>Object.keys\<close> of a \<open>Set\<close>, which
  is empty, so it never throws.
\<close>

definition checkMethod :: "string list option \<Rightarrow> string \<Rightarrow> bool" where
  "checkMethod methods =
     (case methods of
        None \<Rightarrow> (\<lambda>method. True)
      | Some ms \<Rightarrow> (\<lambda>method. toUpperCase method \<in> set (map toUpperCase ms)))"

text \<open>\<open>routes.set(path, route)\<close> on a \<open>Map\<close>, kept in insertion order.\<close>

fun map_set :: "'k \<Rightarrow> 'v \<Rightarrow> ('k \<times> 'v) list \<Rightarrow> ('k \<times> 'v) list" where
  "map_set k v [] = [(k, v)]"
| "map_set k v ((k', v') # kvs) =
     (if k' = k then (k, v) # kvs else (k', v') # map_set k v kvs)"

text \<open>
  What the loader takes from outside: the module loader, giving the \<open>config\<close> of the
  module of a file (\<open>None\<close> when there is no module), and the parser of
  \<open>path-to-regexp\<close>.
\<close>

record loader =
  load_config :: "string \<Rightarrow> RouteConfig option"
  pathToRegexp :: "string \<Rightarrow> error + key list"

text \<open>The table of routes and the set \<open>dupes\<close> of the shapes seen.\<close>

type_synonym tables = "(string \<times> Route) list \<times> string set"

text \<open>
  The route path that a file under \<open>api/\<close> maps to: the module must load
  (\<open>invariant(module, "Module not found")\<close>) and the path must pass
  \<open>pathFromFilename\<close>.
\<close>

definition file_path :: "loader \<Rightarrow> string \<Rightarrow> error + string" where
  "file_path L filename =
     (case load_config L filename of
        None \<Rightarrow> Inl (Error ''Invariant failed: Module not found'')
      | Some cfg \<Rightarrow> pathFromFilename (pathToRegexp L) (strip_api filename))"

text \<open>The route that is stored for a file, once its shape was found to be new.\<close>

definition file_route :: "loader \<Rightarrow> string \<Rightarrow> error + Route" where
  "file_route L filename =
     (case load_config L filename of
        None \<Rightarrow> Inl (Error ''Invariant failed: Module not found'')
      | Some cfg \<Rightarrow>
          (case checkContentType (rc_accepts cfg) of
             Inl err \<Rightarrow> Inl err
           | Inr accepts \<Rightarrow>
               (case getTimeout_manifest (rc_timeout cfg) 30 30 of
                  Inl err \<Rightarrow> Inl err
                | Inr t \<Rightarrow>
                    Inr \<lparr>r_checkContentType = accepts,
                         r_checkMethod = checkMethod (rc_methods cfg),
                         r_filename = filename,
                         r_queue = None,
                         r_timeout = t\<rparr>)))"

text \<open>The error of a file whose shape is in \<open>dupes\<close>.\<close>

definition identical_route :: error where
  "identical_route =
     Error ''An identical route already exists, maybe with different parameter names''"

text \<open>The body of the first loop of \<open>loadRoutes\<close>, for one file.\<close>

definition add_file :: "loader \<Rightarrow> string \<Rightarrow> tables \<Rightarrow> error + tables" where
  "add_file L filename tb =
     (case tb of (routes, dupes) \<Rightarrow>
        (case file_path L filename of
           Inl err \<Rightarrow> Inl (in_file filename err)
         | Inr path \<Rightarrow>
             if signature path \<in> dupes
             then Inl (in_file filename identical_route)
             else
               (case file_route L filename of
                  Inl err \<Rightarrow> Inl (in_file filename err)
                | Inr route \<Rightarrow>
                    Inr (map_set path route routes, insert (signature path) dupes))))"

fun add_files :: "loader \<Rightarrow> string list \<Rightarrow> tables \<Rightarrow> error + tables" where
  "add_files L [] tb = Inr tb"
| "add_files L (filename # filenames) tb =
     (case add_file L filename tb of
        Inl err \<Rightarrow> Inl err
      | Inr tb' \<Rightarrow> add_files L filenames tb')"

text \<open>The body of the second loop, for one queue: a queue with no path is skipped.\<close>

definition add_queue :: "loader \<Rightarrow> Queue \<Rightarrow> tables \<Rightarrow> error + tables" where
  "add_queue L queue tb =
     (case tb of (routes, dupes) \<Rightarrow>
        (case q_path queue of
           None \<Rightarrow> Inr (routes, dupes)
         | Some qp \<Rightarrow>
             (let path = renamePathProperties (strip_slashes qp) in
              case verifyPathParameters (pathToRegexp L) path of
                Some err \<Rightarrow> Inl (in_file (q_filename queue) err)
              | None \<Rightarrow>
                  if signature path \<in> dupes
                  then Inl (in_file (q_filename queue)
                         (Error (''Error in '' @ dq @ q_filename queue @ dq @
                            '': duplicate route exists'')))
                  else Inr (map_set path
                              \<lparr>r_checkContentType = q_checkContentType queue,
                               r_checkMethod = (\<lambda>method. toUpperCase method = ''POST''),
                               r_filename = q_filename queue,
                               r_queue = Some queue,
                               r_timeout = q_timeout queue\<rparr> routes,
                            insert (signature path) dupes))))"

fun add_queues :: "loader \<Rightarrow> Queue list \<Rightarrow> tables \<Rightarrow> error + tables" where
  "add_queues L [] tb = Inr tb"
| "add_queues L (queue # queues) tb =
     (case add_queue L queue tb of
        Inl err \<Rightarrow> Inl err
      | Inr tb' \<Rightarrow> add_queues L queues tb')"

text \<open>
  \<open>loadRoutes(queues)\<close>, for the file names that the glob \<open>api/**/[!_]*.{js,ts}\<close>
  yields and the queues of the manifest, in the order of their table.
\<close>

definition loadRoutes :: "loader \<Rightarrow> string list \<Rightarrow> Queue list \<Rightarrow> error + (string \<times> Route) list" where
  "loadRoutes L filenames queues =
     (case add_files L filenames ([], {}) of
        Inl err \<Rightarrow> Inl err
      | Inr tb \<Rightarrow>
          (case add_queues L queues tb of
             Inl err \<Rightarrow> Inl err
           | Inr (routes, dupes) \<Rightarrow> Inr routes))"

text \<open>The shape of the route path of a file (empty when the file has no route path).\<close>

definition file_shape :: "loader \<Rightarrow> string \<Rightarrow> string" where
  "file_shape L filename = (case file_path L filename of Inl err \<Rightarrow> [] | Inr path \<Rightarrow> signature path)"

text \<open>
  The invariant of the two loops: \<open>dupes\<close> holds the shape of every path of the
  table, and no two entries of the table have the same shape.
\<close>

definition shapes_recorded :: "tables \<Rightarrow> bool" where
  "shapes_recorded tb =
     (case tb of (routes, dupes) \<Rightarrow>
        signature ` fst ` set routes \<subseteq> dupes \<and> distinct (map (\<lambda>(path, r). signature path) routes))"

subsection \<open>Two projects to load\<close>

definition example_config :: RouteConfig where
  "example_config = \<lparr>rc_accepts = None, rc_methods = None, rc_timeout = NotSet\<rparr>"

text \<open>A parser that finds the parameter of the two paths of the example.\<close>

definition example_loader :: loader where
  "example_loader =
     \<lparr>load_config = (\<lambda>filename. Some example_config),
      pathToRegexp = (\<lambda>path.
        if path = ''a/:x'' then Inr [\<lparr>key_name = ''x'', key_modifier = []\<rparr>]
        else if path = ''a/:y'' then Inr [\<lparr>key_name = ''y'', key_modifier = []\<rparr>]
        else Inr [])\<rparr>"

section \<open>HTTP request engine (http/handleHTTPRequest.ts)\<close>

subsection \<open>Headers, requests and responses\<close>

text \<open>
  \<open>Headers\<close> of the Fetch API: a table from header names to values, the names compared
  without regard to case. The table keeps the names in lower case, in insertion order.
\<close>

type_synonym headers = "(string \<times> string) list"

definition lower_char :: "char \<Rightarrow> char" where
  "lower_char c =
     (case map_of (zip ''ABCDEFGHIJKLMNOPQRSTUVWXYZ'' ''abcdefghijklmnopqrstuvwxyz'') c of
        Some l \<Rightarrow> l
      | None \<Rightarrow> c)"

definition toLowerCase :: "string \<Rightarrow> string" where
  "toLowerCase s = map lower_char s"

definition headers_get :: "headers \<Rightarrow> string \<Rightarrow> string option" where
  "headers_get h name = map_of h (toLowerCase name)"

definition headers_has :: "headers \<Rightarrow> string \<Rightarrow> bool" where
  "headers_has h name = (headers_get h name \<noteq> None)"

definition headers_set :: "string \<Rightarrow> string \<Rightarrow> headers \<Rightarrow> headers" where
  "headers_set name v h = map_set (toLowerCase name) v h"

text \<open>\<open>new Headers(init)\<close> for an object or the entries of other headers.\<close>

definition new_Headers :: "(string \<times> string) list \<Rightarrow> headers" where
  "new_Headers init = fold (\<lambda>(name, v). headers_set name v) init []"

text \<open>
  \<open>new Headers({ ...Object.fromEntries(a.entries()), ...Object.fromEntries(b.entries()) })\<close>:
  the entries of \<open>b\<close> override those of \<open>a\<close>.
\<close>

definition merge_headers :: "headers \<Rightarrow> headers \<Rightarrow> headers" where
  "merge_headers a b = new_Headers (a @ b)"

record Request =
  rq_method :: string
  rq_url :: string
  rq_headers :: headers

text \<open>A \<open>Response\<close>: status, headers and body (\<open>None\<close> when there is no body).\<close>

record Response =
  res_status :: nat
  res_headers :: headers
  res_body :: "string option"

text \<open>What user code throws: a \<open>Response\<close>, or anything else.\<close>

datatype thrown = ThrownResponse Response | ThrownError error

text \<open>How a call of user code ends.\<close>

datatype 'a outcome = Returns 'a | Throws thrown

text \<open>
  What a request handler returns: a \<open>Response\<close>, a string, a buffer, another truthy
  value (given by the text that \<open>JSON.stringify\<close> makes of it), or a falsy value that is
  not a string (\<open>undefined\<close>, \<open>null\<close>, \<open>false\<close>, 0).
\<close>

datatype result =
    ResultResponse Response
  | ResultString string
  | ResultBuffer string
  | ResultObject string
  | ResultNothing

text \<open>The value of an etag policy: absent, a boolean or a string.\<close>

datatype etag_value = ETagAbsent | ETagBool bool | ETagString string

text \<open>A field of \<open>config\<close> that is a value or a function of the result.\<close>

datatype 'a policy = Fixed 'a | Computed "result \<Rightarrow> 'a"

text \<open>
  \<open>config.cache\<close> (seconds; \<open>None\<close> when absent or falsy in another way than 0) and
  \<open>config.etag\<close>.
\<close>

record RouteExportsConfig =
  cfg_cache :: "nat option policy"
  cfg_etag :: "etag_value policy"

text \<open>The metadata handed to a request handler; the abort signal is left to the race.\<close>

record RequestHandlerMetadata =
  hm_cookies :: "(string \<times> string) list"
  hm_params :: "(string \<times> string) list"
  hm_user :: "user nullable"

type_synonym RequestHandler = "Request \<Rightarrow> RequestHandlerMetadata \<Rightarrow> result outcome"

text \<open>The middleware of a route; \<open>None\<close> is an absent (or \<open>null\<close>) export.\<close>

record RouteMiddleware =
  mw_authenticate :: "(Request \<Rightarrow> (string \<times> string) list \<Rightarrow> user nullable outcome) option"
  mw_onRequest :: "(Request \<Rightarrow> unit outcome) option"
  mw_onResponse :: "(Request \<Rightarrow> Response \<Rightarrow> unit outcome) option"
  mw_onError :: "(error \<Rightarrow> Request \<Rightarrow> unit outcome) option"

text \<open>The exports of a route module: the handlers by export name, and \<open>config\<close>.\<close>

record RouteExports =
  exports :: "string \<Rightarrow> RequestHandler option"
  module_config :: "RouteExportsConfig option"

text \<open>
  The \<open>HTTPRoute\<close> that \<open>findRoute\<close> gives. \<open>methods\<close> and \<open>accepts\<close> are sets,
  kept in insertion order; \<open>getCorsHeaders\<close> allows for absent \<open>methods\<close>.
\<close>

record HTTPRoute =
  rt_cors :: bool
  rt_methods :: "string list option"
  rt_accepts :: "string list"
  rt_timeout :: real
  rt_filename :: string

record found =
  fr_middleware :: RouteMiddleware
  fr_module :: RouteExports
  fr_params :: "(string \<times> string) list"
  fr_route :: HTTPRoute

text \<open>
  What the engine takes from outside: \<open>findRoute\<close> (it throws the 404 response),
  the MD5 digest in hexadecimal, and for a request whether the abort timer of the route
  fires before the middleware and the handler have settled.
\<close>

record http =
  findRoute :: "string \<Rightarrow> thrown + found"
  md5 :: "string \<Rightarrow> string"
  timer_first :: "Request \<Rightarrow> bool"

text \<open>The calls of user code and the assignment of the user cell, in order.\<close>

datatype http_event =
    CalledOnRequest
  | CalledAuthenticate
  | UserAssigned "user nullable"
  | CalledHandler "user nullable"
  | CalledOnResponse Response
  | CalledOnError error

subsection \<open>The functions of the engine\<close>

text \<open>\<open>new Response(body, { headers, status })\<close>; absent headers are empty.\<close>

definition new_Response :: "string option \<Rightarrow> headers option \<Rightarrow> nat \<Rightarrow> Response" where
  "new_Response b h st =
     \<lparr>res_status = st, res_headers = (case h of None \<Rightarrow> [] | Some hs \<Rightarrow> hs), res_body = b\<rparr>"

text \<open>\<open>getCorsHeaders(route)\<close>.\<close>

definition getCorsHeaders :: "HTTPRoute \<Rightarrow> headers option" where
  "getCorsHeaders route =
     (if \<not> rt_cors route then None
      else Some (new_Headers
        [(''Access-Control-Allow-Origin'', ''*''),
         (''Access-Control-Allow-Methods'',
            (case rt_methods route of None \<Rightarrow> ''*'' | Some ms \<Rightarrow> join '', '' ms)),
         (''Access-Control-Allow-Headers'', ''Content-Type, Authorization'')]))"

text \<open>White space of \<open>String.prototype.trim\<close> among the 8-bit characters below 128.\<close>

definition white_space :: "char \<Rightarrow> bool" where
  "white_space c = (c = CHR '' '' \<or> c = CHR 0x09 \<or> c = CHR 0x0A \<or> c = CHR 0x0B \<or>
     c = CHR 0x0C \<or> c = CHR 0x0D)"

definition trim :: "string \<Rightarrow> string" where
  "trim s = rev (dropWhile white_space (rev (dropWhile white_space s)))"

text \<open>
  \<open>checkRequest(request, route)\<close>: \<open>None\<close> when it returns. Absent \<open>methods\<close> is
  the TypeError of \<open>undefined.has\<close>.
\<close>

definition checkRequest :: "Request \<Rightarrow> HTTPRoute \<Rightarrow> thrown option" where
  "checkRequest request route =
     (case rt_methods route of
        None \<Rightarrow> Some (ThrownError (TypeError ''Cannot read properties of undefined''))
      | Some ms \<Rightarrow>
          if \<not> (''*'' \<in> set ms \<or> rq_method request \<in> set ms)
          then Some (ThrownResponse (new_Response (Some ''Method Not Allowed'') None 405))
          else if \<not> (rq_method request \<noteq> ''GET'' \<and> rq_method request \<noteq> ''HEAD'') then None
          else if ''*/*'' \<in> set (rt_accepts route) then None
          else
            (let mimeType =
                   (case headers_get (rq_headers request) ''content-type'' of
                      None \<Rightarrow> None
                    | Some ct \<Rightarrow> Some (trim (hd (split_on (CHR '';'') ct))));
                 accepted =
                   (case mimeType of
                      None \<Rightarrow> False
                    | Some mt \<Rightarrow>
                        mt \<noteq> [] \<and>
                        (mt \<in> set (rt_accepts route) \<or>
                         (hd (split_on (CHR ''/'') mt) @ ''/*'') \<in> set (rt_accepts route)))
             in if \<not> accepted
                then Some (ThrownResponse (new_Response (Some ''Unsupported Media Type'') None 415))
                else None))"

text \<open>\<open>getHandler(module, method)\<close>.\<close>

definition getHandler :: "RouteExports \<Rightarrow> string \<Rightarrow> thrown + RequestHandler" where
  "getHandler module' method =
     (let handler' =
        (case exports module' (toLowerCase method) of
           Some h \<Rightarrow> Some h
         | None \<Rightarrow>
             (case (if method = ''DELETE'' then exports module' ''del'' else None) of
                Some h \<Rightarrow> Some h
              | None \<Rightarrow>
                  (case (if method = ''HEAD'' then exports module' ''get'' else None) of
                     Some h \<Rightarrow> Some h
                   | None \<Rightarrow> exports module' ''default'')))
      in case handler' of
           Some h \<Rightarrow> Inr h
         | None \<Rightarrow> Inl (ThrownResponse (new_Response (Some ''Method Not Allowed'') None 405)))"

text \<open>
  One cookie of \<open>getCookies\<close>, matched against \<open>/^([^=]+?)=(.*)$/\<close>: a non-empty key
  up to the first \<open>=\<close> and the rest, which holds no line terminator.
\<close>

definition cookie_pair :: "string \<Rightarrow> (string \<times> string) option" where
  "cookie_pair cookie =
     (let k = takeWhile (\<lambda>c. c \<noteq> CHR ''='') cookie;
          r = dropWhile (\<lambda>c. c \<noteq> CHR ''='') cookie
      in if k \<noteq> [] \<and> r \<noteq> [] \<and> one_line (tl r) then Some (k, tl r) else None)"

text \<open>
  \<open>getCookies(request)\<close>. A cookie that does not match makes the \<open>reduce\<close>
  destructure \<open>undefined\<close>, a TypeError.
\<close>

fun collect_cookies :: "string list \<Rightarrow> (string \<times> string) list \<Rightarrow> error + (string \<times> string) list" where
  "collect_cookies [] cookies = Inr cookies"
| "collect_cookies (c # cs) cookies =
     (case cookie_pair c of
        None \<Rightarrow> Inl (TypeError ''undefined is not iterable'')
      | Some (k, v) \<Rightarrow> collect_cookies cs (map_set k v cookies))"

definition getCookies :: "Request \<Rightarrow> error + (string \<times> string) list" where
  "getCookies request =
     (case headers_get (rq_headers request) ''cookie'' of
        None \<Rightarrow> Inr []
      | Some header \<Rightarrow>
          if header = [] then Inr []
          else collect_cookies (map trim (split_on (CHR '';'') header)) [])"

text \<open>The truthiness of an etag value.\<close>

definition truthy_etag :: "etag_value \<Rightarrow> bool" where
  "truthy_etag etag =
     (case etag of ETagAbsent \<Rightarrow> False | ETagBool b \<Rightarrow> b | ETagString s \<Rightarrow> s \<noteq> [])"

text \<open>\<open>addETag(headers, content, etag)\<close>.\<close>

definition addETag :: "(string \<Rightarrow> string) \<Rightarrow> headers \<Rightarrow> string \<Rightarrow> etag_value \<Rightarrow> headers" where
  "addETag digest h content etag =
     (if headers_has h ''ETag'' \<or> \<not> truthy_etag etag then h
      else headers_set ''ETag''
             (case etag of ETagString s \<Rightarrow> s | _ \<Rightarrow> digest content) h)"

text \<open>\<open>addCacheControl(headers, cache)\<close>.\<close>

definition addCacheControl :: "headers \<Rightarrow> nat option \<Rightarrow> headers" where
  "addCacheControl h cache =
     (case cache of
        None \<Rightarrow> h
      | Some n \<Rightarrow>
          if headers_has h ''Cache-Control'' \<or> n = 0 then h
          else headers_set ''Cache-Control''
                 (''private, max-age='' @ show_nat n @ '', must-revalidate'') h)"

text \<open>\<open>resultToResponse({ cache, corsHeaders, etag, filename, result })\<close>.\<close>

definition resultToResponse ::
  "(string \<Rightarrow> string) \<Rightarrow> nat option \<Rightarrow> headers option \<Rightarrow> etag_value \<Rightarrow> result \<Rightarrow> Response" where
  "resultToResponse digest cache corsHeaders etag res =
     (case res of
        ResultResponse r \<Rightarrow>
          (let h = merge_headers (case corsHeaders of None \<Rightarrow> [] | Some c \<Rightarrow> c) (res_headers r);
               h' = (if res_status r = 200
                     then addCacheControl
                            (addETag digest h (case res_body r of None \<Rightarrow> [] | Some b \<Rightarrow> b) etag)
                            cache
                     else h)
           in new_Response (res_body r) (Some h') (res_status r))
      | ResultString b \<Rightarrow>
          new_Response (Some b)
            (Some (addCacheControl
               (addETag digest
                  (headers_set ''Content-Type'' ''text/plain; charset=utf-8''
                     (new_Headers (case corsHeaders of None \<Rightarrow> [] | Some c \<Rightarrow> c))) b etag)
               cache)) 200
      | ResultBuffer b \<Rightarrow>
          new_Response (Some b)
            (Some (addCacheControl
               (addETag digest
                  (headers_set ''Content-Type'' ''text/plain; charset=utf-8''
                     (new_Headers (case corsHeaders of None \<Rightarrow> [] | Some c \<Rightarrow> c))) b etag)
               cache)) 200
      | ResultObject json \<Rightarrow>
          new_Response (Some json)
            (Some (addCacheControl
               (addETag digest
                  (headers_set ''Content-Type'' ''application/json''
                     (new_Headers (case corsHeaders of None \<Rightarrow> [] | Some c \<Rightarrow> c))) json etag)
               cache)) 200
      | ResultNothing \<Rightarrow> new_Response None corsHeaders 204)"

definition internal_server_error :: Response where
  "internal_server_error = new_Response (Some ''Internal Server Error'') None 500"

text \<open>
  \<open>handleOnResponse\<close>: the response after \<open>onResponse\<close>, and the events. A response
  thrown by \<open>onResponse\<close> replaces the response; another throw goes to \<open>onError\<close> and
  gives 500.
\<close>

definition handleOnResponse ::
  "RouteMiddleware \<Rightarrow> Request \<Rightarrow> Response \<Rightarrow> Response \<times> http_event list" where
  "handleOnResponse middleware request response =
     (case mw_onResponse middleware of
        None \<Rightarrow> (response, [])
      | Some f \<Rightarrow>
          (case f request response of
             Returns u \<Rightarrow> (response, [CalledOnResponse response])
           | Throws (ThrownResponse r) \<Rightarrow> (r, [CalledOnResponse response])
           | Throws (ThrownError err) \<Rightarrow>
               (internal_server_error,
                CalledOnResponse response #
                (case mw_onError middleware of None \<Rightarrow> [] | Some g \<Rightarrow> [CalledOnError err]))))"

text \<open>
  \<open>handleOnError\<close>: a thrown response is the response, anything else gives 500;
  \<open>onResponse\<close> sees it and may replace it by throwing a response; \<open>onError\<close> is
  called for what is not a response.
\<close>

definition handleOnError ::
  "RouteMiddleware \<Rightarrow> Request \<Rightarrow> thrown \<Rightarrow> Response \<times> http_event list" where
  "handleOnError middleware request err =
     (let response = (case err of ThrownResponse r \<Rightarrow> r | ThrownError e \<Rightarrow> internal_server_error);
          after_onResponse =
            (case mw_onResponse middleware of
               None \<Rightarrow> (response, [])
             | Some f \<Rightarrow>
                 (case f request response of
                    Throws (ThrownResponse r) \<Rightarrow> (r, [CalledOnResponse response])
                  | _ \<Rightarrow> (response, [CalledOnResponse response])));
          reported =
            (case err of
               ThrownResponse r \<Rightarrow> []
             | ThrownError e \<Rightarrow>
                 (case mw_onError middleware of None \<Rightarrow> [] | Some g \<Rightarrow> [CalledOnError e]))
      in (fst after_onResponse, snd after_onResponse @ reported))"

text \<open>\<open>!user?.id\<close>.\<close>

definition without_id :: "user nullable \<Rightarrow> bool" where
  "without_id u = (case u of Val (User i) \<Rightarrow> \<not> truthy_string i | _ \<Rightarrow> True)"

definition forbidden :: Response where
  "forbidden = new_Response (Some ''Forbidden'') None 403"

text \<open>
  The \<open>try\<close> block of \<open>runWithMiddleware\<close> up to the response of the handler: what it
  throws or the response made of the result, and the events.
\<close>

definition try_route ::
  "(string \<Rightarrow> string) \<Rightarrow> RouteExportsConfig \<Rightarrow> headers option \<Rightarrow> RequestHandler \<Rightarrow>
   RouteMiddleware \<Rightarrow> RequestHandlerMetadata \<Rightarrow> Request \<Rightarrow> (thrown + Response) \<times> http_event list" where
  "try_route digest cfg corsHeaders handler' middleware md request =
     (case (case mw_onRequest middleware of
              None \<Rightarrow> (None, [])
            | Some f \<Rightarrow>
                (case f request of
                   Throws t \<Rightarrow> (Some t, [CalledOnRequest])
                 | Returns u \<Rightarrow> (None, [CalledOnRequest]))) of
        (Some t, evs) \<Rightarrow> (Inl t, evs)
      | (None, evs) \<Rightarrow>
          (case (case mw_authenticate middleware of
                   None \<Rightarrow> (Inr Undefined, [])
                 | Some a \<Rightarrow>
                     (case a request (hm_cookies md) of
                        Throws t \<Rightarrow> (Inl t, [CalledAuthenticate])
                      | Returns u \<Rightarrow>
                          if without_id u then (Inl (ThrownResponse forbidden), [CalledAuthenticate])
                          else (Inr u, [CalledAuthenticate]))) of
             (Inl t, evs') \<Rightarrow> (Inl t, evs @ evs')
           | (Inr u, evs') \<Rightarrow>
               (case handler' request (md\<lparr>hm_user := u\<rparr>) of
                  Throws t \<Rightarrow> (Inl t, evs @ evs' @ [UserAssigned u, CalledHandler u])
                | Returns res \<Rightarrow>
                    (let cache = (case cfg_cache cfg of Fixed c \<Rightarrow> c | Computed f \<Rightarrow> f res);
                         etag = (case cfg_etag cfg of
                                   Computed f \<Rightarrow> f res
                                 | Fixed ETagAbsent \<Rightarrow> ETagBool True
                                 | Fixed e \<Rightarrow> e)
                     in (Inr (resultToResponse digest cache corsHeaders etag res),
                         evs @ evs' @ [UserAssigned u, CalledHandler u])))))"

text \<open>\<open>runWithMiddleware\<close>.\<close>

definition runWithMiddleware ::
  "(string \<Rightarrow> string) \<Rightarrow> RouteExportsConfig \<Rightarrow> headers option \<Rightarrow> RequestHandler \<Rightarrow>
   RouteMiddleware \<Rightarrow> RequestHandlerMetadata \<Rightarrow> Request \<Rightarrow> Response \<times> http_event list" where
  "runWithMiddleware digest cfg corsHeaders handler' middleware md request =
     (case try_route digest cfg corsHeaders handler' middleware md request of
        (Inr response, evs) \<Rightarrow>
          (case handleOnResponse middleware request response of
             (r, evs') \<Rightarrow> (r, evs @ evs'))
      | (Inl t, evs) \<Rightarrow>
          (case handleOnError middleware request t of
             (r, evs') \<Rightarrow> (r, evs @ evs')))"

text \<open>The configuration of a module without \<open>config\<close>: \<open>module.config ?? {}\<close>.\<close>

definition empty_config :: RouteExportsConfig where
  "empty_config = \<lparr>cfg_cache = Fixed None, cfg_etag = Fixed ETagAbsent\<rparr>"

text \<open>
  \<open>handleRoute\<close>: the cookies are read first (a throw leaves the function), then the
  middleware and the handler race against the abort timer. When the timer is first, the
  response is 500 \<open>Timed Out\<close>; the events are those of the run that was abandoned.
\<close>

definition handleRoute ::
  "http \<Rightarrow> RouteExportsConfig \<Rightarrow> headers option \<Rightarrow> RequestHandler \<Rightarrow> RouteMiddleware \<Rightarrow>
   (string \<times> string) list \<Rightarrow> Request \<Rightarrow> (thrown + Response) \<times> http_event list" where
  "handleRoute H cfg corsHeaders handler' middleware params request =
     (case getCookies request of
        Inl err \<Rightarrow> (Inl (ThrownError err), [])
      | Inr cookies \<Rightarrow>
          (case runWithMiddleware (md5 H) cfg corsHeaders handler' middleware
                  \<lparr>hm_cookies = cookies, hm_params = params, hm_user = Undefined\<rparr> request of
             (response, evs) \<Rightarrow>
               if timer_first H request
               then (Inr (new_Response (Some ''Timed Out'') None 500), evs)
               else (Inr response, evs)))"

text \<open>\<open>handleHTTPRequest(request, newLocalStorage)\<close>.\<close>

definition handleHTTPRequest :: "http \<Rightarrow> Request \<Rightarrow> Response \<times> http_event list" where
  "handleHTTPRequest H request =
     (case (case findRoute H (rq_url request) of
              Inl t \<Rightarrow> (Inl t, [])
            | Inr f \<Rightarrow>
                (let corsHeaders = getCorsHeaders (fr_route f) in
                 if rt_cors (fr_route f) \<and> rq_method request = ''OPTIONS''
                 then (Inr (new_Response None corsHeaders 204), [])
                 else
                   (case getHandler (fr_module f) (rq_method request) of
                      Inl t \<Rightarrow> (Inl t, [])
                    | Inr handler' \<Rightarrow>
                        (case checkRequest request (fr_route f) of
                           Some t \<Rightarrow> (Inl t, [])
                         | None \<Rightarrow>
                             handleRoute H
                               (case module_config (fr_module f) of
                                  None \<Rightarrow> empty_config
                                | Some c \<Rightarrow> c)
                               corsHeaders handler' (fr_middleware f) (fr_params f) request)))) of
        (Inr response, evs) \<Rightarrow> (response, evs)
      | (Inl (ThrownResponse r), evs) \<Rightarrow> (r, evs)
      | (Inl (ThrownError err), evs) \<Rightarrow> (internal_server_error, evs))"

text \<open>The content that \<open>addETag\<close> is given for a result.\<close>

definition content_of :: "result \<Rightarrow> string" where
  "content_of res =
     (case res of
        ResultResponse r \<Rightarrow> (case res_body r of None \<Rightarrow> [] | Some b \<Rightarrow> b)
      | ResultString b \<Rightarrow> b
      | ResultBuffer b \<Rightarrow> b
      | ResultObject json \<Rightarrow> json
      | ResultNothing \<Rightarrow> [])"

text \<open>
  The headers of \<open>resultToResponse\<close> before \<open>addETag\<close> and \<open>addCacheControl\<close>:
  those of the CORS headers and of the response that the handler returned, or the
  content type.
\<close>

definition preset_headers :: "headers option \<Rightarrow> result \<Rightarrow> headers" where
  "preset_headers corsHeaders res =
     (let cors = (case corsHeaders of None \<Rightarrow> [] | Some c \<Rightarrow> c) in
      case res of
        ResultResponse r \<Rightarrow> merge_headers cors (res_headers r)
      | ResultString b \<Rightarrow> headers_set ''Content-Type'' ''text/plain; charset=utf-8'' (new_Headers cors)
      | ResultBuffer b \<Rightarrow> headers_set ''Content-Type'' ''text/plain; charset=utf-8'' (new_Headers cors)
      | ResultObject json \<Rightarrow> headers_set ''Content-Type'' ''application/json'' (new_Headers cors)
      | ResultNothing \<Rightarrow> cors)"

subsection \<open>A route to run the engine on\<close>

definition example_route_x :: HTTPRoute where
  "example_route_x =
     \<lparr>rt_cors = True, rt_methods = Some [''GET'', ''POST''], rt_accepts = [''application/json''],
      rt_timeout = 30, rt_filename = ''api/x.ts''\<rparr>"

definition hello_handler :: RequestHandler where
  "hello_handler = (\<lambda>request md. Returns (ResultString ''hello''))"

definition example_exports :: RouteExports where
  "example_exports =
     \<lparr>exports = (\<lambda>name. if name = ''get'' then Some hello_handler else None),
      module_config = None\<rparr>"


text \<open>A middleware whose \<open>authenticate\<close> returns \<open>null\<close>.\<close>

definition null_auth :: RouteMiddleware where
  "null_auth =
     \<lparr>mw_authenticate = Some (\<lambda>request cookies. Returns Null),
      mw_onRequest = None, mw_onResponse = None, mw_onError = None\<rparr>"


definition example_http :: "RouteMiddleware \<Rightarrow> http" where
  "example_http middleware =
     \<lparr>findRoute = (\<lambda>url.
        if url = ''/x''
        then Inr \<lparr>fr_middleware = middleware, fr_module = example_exports, fr_params = [],
                  fr_route = example_route_x\<rparr>
        else Inl (ThrownResponse (new_Response (Some ''Not Found'') None 404))),
      md5 = (\<lambda>content. ''md5:'' @ content),
      timer_first = (\<lambda>request. False)\<rparr>"

definition example_request :: "string \<Rightarrow> Request" where
  "example_request method = \<lparr>rq_method = method, rq_url = ''/x'', rq_headers = []\<rparr>"

section \<open>The user cell is set once\<close>

lemma set_user_marks: "set_user u ls = Inr ls' \<Longrightarrow> priv_userSet ls'"
  by (auto simp: set_user_def split: if_splits nullable.splits user.splits)

lemma set_user_twice: "priv_userSet ls \<Longrightarrow> set_user v ls = Inl (Error ''Local context user already set'')"
  by (simp add: set_user_def)

text \<open>
  C4. On a fresh context the user cell is \<open>null\<close> and unset. The first assignment, of
  \<open>null\<close>, of \<open>undefined\<close> or of a user with a non-empty id, succeeds: the cell then
  holds that user (\<open>null\<close> for \<open>null\<close> and \<open>undefined\<close>). Whatever is assigned to the
  resulting context afterwards, the assignment throws
  \<open>Local context user already set\<close>. The same holds after a successful assignment
  to any context, fresh or not.
\<close>

theorem user_cell_set_once:
  fixes c :: "string \<times> string" and i :: string and v :: "user nullable"
  defines "fresh \<equiv> new_LocalStorage c"
  shows "get_user fresh = None \<and> \<not> priv_userSet fresh \<and>
    (\<exists>ls'. set_user Null fresh = Inr ls' \<and> get_user ls' = None \<and>
       set_user v ls' = Inl (Error ''Local context user already set'')) \<and>
    (\<exists>ls'. set_user Undefined fresh = Inr ls' \<and> get_user ls' = None \<and>
       set_user v ls' = Inl (Error ''Local context user already set'')) \<and>
    (i \<noteq> [] \<longrightarrow>
      (\<exists>ls'. set_user (Val (User (Some i))) fresh = Inr ls' \<and>
         get_user ls' = Some (User (Some i)) \<and>
         set_user v ls' = Inl (Error ''Local context user already set''))) \<and>
    (\<forall>u ls ls'. set_user u ls = Inr ls' \<longrightarrow>
       set_user v ls' = Inl (Error ''Local context user already set''))"
proof -
  have "\<forall>u ls ls'. set_user u ls = Inr ls' \<longrightarrow>
      set_user v ls' = Inl (Error ''Local context user already set'')"
    by (blast intro: set_user_twice dest: set_user_marks)
  then show ?thesis
    by (simp add: fresh_def new_LocalStorage_def get_user_def set_user_def truthy_string_def)
qed

theorem user_cell_set_once_witness:
  "\<exists>ls'. set_user (Val (User (Some ''u1''))) (new_LocalStorage (''http://h'', ''ws://h'')) = Inr ls' \<and>
     get_user ls' = Some (User (Some ''u1'')) \<and>
     set_user Null ls' = Inl (Error ''Local context user already set'')"
  using user_cell_set_once [where c = "(''http://h'', ''ws://h'')" and i = "''u1''" and v = Null]
  by simp

section \<open>Failing closed, nested entry, escape\<close>

text \<open>
  C9. Outside any context \<open>getLocalStorage\<close> throws \<open>Runtime not available\<close>; inside
  \<open>withLocalStorage\<close> it returns the context that was opened. Opening a context while
  one is live throws \<open>Can't nest runtimes\<close> and does not run the function, also when
  the second context is opened by the function of the first. \<open>exit\<close> runs its callback
  with no context: there the access throws again, and a new context can be opened.
\<close>

theorem ambient_context_rules:
  "getLocalStorage None = Inl (Error ''Runtime not available'') \<and>
   withLocalStorage l getLocalStorage None = Inr (Inr l) \<and>
   withLocalStorage l2 fn (Some l1) = Inl (Error ''Can't nest runtimes'') \<and>
   withLocalStorage l1 (withLocalStorage l2 fn) None = Inr (Inl (Error ''Can't nest runtimes'')) \<and>
   exit callback (Some l1) = callback None \<and>
   exit getLocalStorage (Some l1) = Inl (Error ''Runtime not available'') \<and>
   withLocalStorage l1 (exit (withLocalStorage l2 fn)) None = Inr (Inr (fn (Some l2)))"
  by (simp add: getLocalStorage_def withLocalStorage_def asyncLocal_run_def exit_def
      asyncLocal_exit_def)

theorem ambient_context_rules_witness:
  "withLocalStorage (new_LocalStorage (''a'', ''b'')) getLocalStorage
     (Some (new_LocalStorage (''c'', ''d''))) = Inl (Error ''Can't nest runtimes'') \<and>
   exit getLocalStorage (Some (new_LocalStorage (''c'', ''d''))) =
     Inl (Error ''Runtime not available'')"
  using ambient_context_rules [of "new_LocalStorage (''a'', ''b'')" "new_LocalStorage (''a'', ''b'')"
      getLocalStorage "new_LocalStorage (''c'', ''d'')" getLocalStorage]
  by simp

section \<open>The FIFO batch\<close>

lemma try_message_ok:
  "try_message e sqs mdl m md d = (evs, None) \<Longrightarrow>
   evs = Invoked (messageId m) #
     (if region sqs = ''localhost'' then [] else [Deleted (fst (deletion_of m)) (receiptHandle m)]) \<and>
   (region sqs \<noteq> ''localhost'' \<longrightarrow> getQueueURL m \<noteq> None)"
  by (auto simp: try_message_def deletion_of_def split: option.splits settled.splits if_splits)

lemma try_message_failed:
  "try_message e sqs mdl m md d = (evs, Some f) \<Longrightarrow>
   deletions evs = [] \<and> set (invocations evs) \<subseteq> {messageId m}"
  by (auto simp: try_message_def split: option.splits settled.splits if_splits)

lemma invocations_append: "invocations (xs @ ys) = invocations xs @ invocations ys"
  by (induction xs rule: invocations.induct) auto

lemma deletions_append: "deletions (xs @ ys) = deletions xs @ deletions ys"
  by (induction xs rule: deletions.induct) auto

text \<open>The three ways \<open>handleOneMessage\<close> ends: it throws, it succeeds, it fails.\<close>

lemma attempt_cases:
  obtains (throws) err where "attempt e sqs m t = (Inl err, [])"
  | (no_time) "attempt e sqs m t = (Inr False, [])"
  | (succeeds) qn mdl evs where "attempt e sqs m t = (Inr True, evs)"
      and "try_message e sqs mdl m (getMetadata m qn) (min (getTimeout (config mdl)) t) = (evs, None)"
  | (fails) qn mdl evs f where
      "attempt e sqs m t =
         (Inr False, evs @ (case onError mdl of None \<Rightarrow> [] | Some h \<Rightarrow> [OnErrorCalled (messageId m)]))"
      and "try_message e sqs mdl m (getMetadata m qn) (min (getTimeout (config mdl)) t) = (evs, Some f)"
proof (cases "getQueueName m")
  case (Inl err)
  then have "attempt e sqs m t = (Inl err, [])" by (simp add: attempt_def)
  then show ?thesis by (rule throws)
next
  case (Inr qn)
  show ?thesis
  proof (cases "loadModule e (''queues/'' @ qn)")
    case None
    with Inr have "attempt e sqs m t = (Inl (Error (''No handler for queue '' @ qn)), [])"
      by (simp add: attempt_def)
    then show ?thesis by (rule throws)
  next
    case (Some mdl)
    define d where "d = min (getTimeout (config mdl)) t"
    obtain evs f where t: "try_message e sqs mdl m (getMetadata m qn) d = (evs, f)"
      by (cases "try_message e sqs mdl m (getMetadata m qn) d") auto
    show ?thesis
    proof (cases "d \<le> 0")
      case True
      with Inr Some have "attempt e sqs m t = (Inr False, [])"
        by (simp add: attempt_def Let_def d_def)
      then show ?thesis by (rule no_time)
    next
      case False
      show ?thesis
      proof (cases f)
        case None
        with Inr Some t False have "attempt e sqs m t = (Inr True, evs)"
          by (simp add: attempt_def Let_def d_def)
        moreover from t None
        have "try_message e sqs mdl m (getMetadata m qn) (min (getTimeout (config mdl)) t) = (evs, None)"
          by (simp add: d_def)
        ultimately show ?thesis by (rule succeeds)
      next
        case (Some x)
        with Inr \<open>loadModule e (''queues/'' @ qn) = Some mdl\<close> t False
        have "attempt e sqs m t =
          (Inr False, evs @ (case onError mdl of None \<Rightarrow> [] | Some h \<Rightarrow> [OnErrorCalled (messageId m)]))"
          by (simp add: attempt_def Let_def d_def)
        moreover from t Some
        have "try_message e sqs mdl m (getMetadata m qn) (min (getTimeout (config mdl)) t) = (evs, Some x)"
          by (simp add: d_def)
        ultimately show ?thesis by (rule fails)
      qed
    qed
  qed
qed

lemma attempt_ok:
  assumes "fst (attempt e sqs m t) = Inr True"
  shows "snd (attempt e sqs m t) = Invoked (messageId m) #
     (if region sqs = ''localhost'' then [] else [Deleted (fst (deletion_of m)) (receiptHandle m)]) \<and>
     (region sqs \<noteq> ''localhost'' \<longrightarrow> getQueueURL m \<noteq> None)"
proof (cases e sqs m t rule: attempt_cases)
  case (throws err)
  with assms show ?thesis by simp
next
  case no_time
  with assms show ?thesis by simp
next
  case (succeeds qn mdl evs)
  from try_message_ok [OF succeeds(2)] succeeds(1) show ?thesis by simp
next
  case (fails qn mdl evs f)
  with assms show ?thesis by simp
qed

lemma attempt_invocations:
  "set (invocations (snd (attempt e sqs m t))) \<subseteq> {messageId m}"
proof (cases e sqs m t rule: attempt_cases)
  case (throws err)
  then show ?thesis by simp
next
  case no_time
  then show ?thesis by simp
next
  case (succeeds qn mdl evs)
  from try_message_ok [OF succeeds(2)] succeeds(1) show ?thesis by simp
next
  case (fails qn mdl evs f)
  from try_message_failed [OF fails(2)] fails(1) show ?thesis
    by (cases "onError mdl") (simp_all add: invocations_append)
qed

lemma attempt_failed_deletions:
  assumes "fst (attempt e sqs m t) = Inr False"
  shows "deletions (snd (attempt e sqs m t)) = []"
proof (cases e sqs m t rule: attempt_cases)
  case (throws err)
  then show ?thesis by simp
next
  case no_time
  then show ?thesis by simp
next
  case (succeeds qn mdl evs)
  with assms show ?thesis by simp
next
  case (fails qn mdl evs f)
  from try_message_failed [OF fails(2)] fails(1) show ?thesis
    by (cases "onError mdl") (simp_all add: deletions_append)
qed

lemma fifo_run:
  assumes "k < length ms"
    and "\<forall>i<k. fst (attempt e sqs (ms ! i) (getRemainingTimeInMillis e (calls st + i))) = Inr True"
    and "fst (attempt e sqs (ms ! k) (getRemainingTimeInMillis e (calls st + k))) = Inr False"
  shows "handleFifoMessages e sqs ms st =
    (Inr (map messageId (drop k ms)),
     st\<lparr>calls := calls st + Suc k,
        trace := trace st @
          concat (map (\<lambda>i. snd (attempt e sqs (ms ! i) (getRemainingTimeInMillis e (calls st + i))))
            [0..<Suc k])\<rparr>)"
  using assms
proof (induction ms arbitrary: k st)
  case Nil
  then show ?case by simp
next
  case (Cons m ms)
  obtain r evs where a: "attempt e sqs m (getRemainingTimeInMillis e (calls st)) = (r, evs)"
    by (cases "attempt e sqs m (getRemainingTimeInMillis e (calls st))") auto
  show ?case
  proof (cases k)
    case 0
    with Cons.prems a show ?thesis
      by (simp add: ask_remaining_def handleOneMessage_def)
  next
    case (Suc j)
    let ?st2 = "st\<lparr>calls := Suc (calls st), trace := trace st @ evs\<rparr>"
    have r: "r = Inr True" using Cons.prems(2) Suc a by fastforce
    have "handleFifoMessages e sqs ms ?st2 =
      (Inr (map messageId (drop j ms)),
       ?st2\<lparr>calls := calls ?st2 + Suc j,
          trace := trace ?st2 @
            concat (map (\<lambda>i. snd (attempt e sqs (ms ! i) (getRemainingTimeInMillis e (calls ?st2 + i))))
              [0..<Suc j])\<rparr>)"
    proof (rule Cons.IH)
      show "j < length ms" using Cons.prems(1) Suc by simp
      show "\<forall>i<j. fst (attempt e sqs (ms ! i) (getRemainingTimeInMillis e (calls ?st2 + i))) = Inr True"
        using Cons.prems(2) Suc by fastforce
      show "fst (attempt e sqs (ms ! j) (getRemainingTimeInMillis e (calls ?st2 + j))) = Inr False"
        using Cons.prems(3) Suc by simp
    qed
    moreover have "concat (map (\<lambda>i. snd (attempt e sqs ((m # ms) ! i) (getRemainingTimeInMillis e (calls st + i)))) [0..<Suc k])
      = evs @ concat (map (\<lambda>i. snd (attempt e sqs (ms ! i) (getRemainingTimeInMillis e (Suc (calls st) + i)))) [0..<Suc j])"
    proof -
      have "[0..<Suc k] = 0 # map Suc [0..<Suc j]"
        using Suc by (simp add: upt_conv_Cons map_Suc_upt del: upt_Suc)
      then show ?thesis using a by (simp add: comp_def del: upt_Suc)
    qed
    ultimately show ?thesis
      using a r Suc by (simp add: ask_remaining_def handleOneMessage_def del: upt_Suc)
  qed
qed


lemma successes_trace:
  assumes "\<forall>i<k. fst (attempt e sqs (ms ! i) (g (n + i))) = Inr True" and "k \<le> length ms"
  shows "invocations (concat (map (\<lambda>i. snd (attempt e sqs (ms ! i) (g (n + i)))) [0..<k])) =
      map messageId (take k ms) \<and>
    deletions (concat (map (\<lambda>i. snd (attempt e sqs (ms ! i) (g (n + i)))) [0..<k])) =
      (if region sqs = ''localhost'' then [] else map deletion_of (take k ms))"
  using assms
proof (induction k)
  case 0
  then show ?case by simp
next
  case (Suc k)
  then have "fst (attempt e sqs (ms ! k) (g (n + k))) = Inr True" by simp
  from attempt_ok [OF this]
  have "invocations (snd (attempt e sqs (ms ! k) (g (n + k)))) = [messageId (ms ! k)]"
    and "deletions (snd (attempt e sqs (ms ! k) (g (n + k)))) =
      (if region sqs = ''localhost'' then [] else [deletion_of (ms ! k)])"
    by (simp_all add: deletion_of_def split: option.splits)
  moreover have "take (Suc k) ms = take k ms @ [ms ! k]"
    using Suc.prems(2) by (simp add: take_Suc_conv_app_nth)
  moreover have "invocations (concat (map (\<lambda>i. snd (attempt e sqs (ms ! i) (g (n + i)))) [0..<k])) =
      map messageId (take k ms) \<and>
    deletions (concat (map (\<lambda>i. snd (attempt e sqs (ms ! i) (g (n + i)))) [0..<k])) =
      (if region sqs = ''localhost'' then [] else map deletion_of (take k ms))"
    using Suc by simp
  ultimately show ?case
    by (simp add: invocations_append deletions_append)
qed

text \<open>
  C1 (as amended). In a FIFO batch whose messages before index \<open>k\<close> succeed and whose
  message at index \<open>k\<close> fails, \<open>handleFifoMessages\<close> returns the ids of the messages
  from index \<open>k\<close> on, in batch order. The handlers that ran are those of the messages
  before \<open>k\<close>, in arrival order, followed at most by that of message \<open>k\<close>; no later
  message is touched. When the region of the client is not \<open>localhost\<close>, every message
  before \<open>k\<close> has been deleted from the queue, with its queue URL and its receipt
  handle, and nothing else has; in local mode no deletion is issued.
\<close>

theorem fifo_batch_cutoff:
  assumes "k < length ms"
    and "\<forall>i<k. fst (attempt e sqs (ms ! i) (getRemainingTimeInMillis e (calls st + i))) = Inr True"
    and "fst (attempt e sqs (ms ! k) (getRemainingTimeInMillis e (calls st + k))) = Inr False"
  shows "\<exists>st' rest.
     handleFifoMessages e sqs ms st = (Inr (map messageId (drop k ms)), st') \<and>
     invocations (trace st') = invocations (trace st) @ map messageId (take k ms) @ rest \<and>
     set rest \<subseteq> {messageId (ms ! k)} \<and>
     deletions (trace st') = deletions (trace st) @
       (if region sqs = ''localhost'' then [] else map deletion_of (take k ms)) \<and>
     (region sqs \<noteq> ''localhost'' \<longrightarrow> (\<forall>i<k. getQueueURL (ms ! i) \<noteq> None))"
proof -
  let ?ev = "\<lambda>i. snd (attempt e sqs (ms ! i) (getRemainingTimeInMillis e (calls st + i)))"
  let ?st' = "st\<lparr>calls := calls st + Suc k, trace := trace st @ concat (map ?ev [0..<Suc k])\<rparr>"
  have run: "handleFifoMessages e sqs ms st = (Inr (map messageId (drop k ms)), ?st')"
    using assms by (rule fifo_run)
  have pre: "invocations (concat (map ?ev [0..<k])) = map messageId (take k ms) \<and>
    deletions (concat (map ?ev [0..<k])) =
      (if region sqs = ''localhost'' then [] else map deletion_of (take k ms))"
    using assms(2) assms(1) by (intro successes_trace) simp_all
  have inv: "invocations (trace ?st') =
      invocations (trace st) @ map messageId (take k ms) @ invocations (?ev k)"
    using pre by (simp add: invocations_append)
  have del: "deletions (trace ?st') = deletions (trace st) @
      (if region sqs = ''localhost'' then [] else map deletion_of (take k ms))"
    using pre attempt_failed_deletions [OF assms(3)] by (simp add: deletions_append)
  have sub: "set (invocations (?ev k)) \<subseteq> {messageId (ms ! k)}"
    by (rule attempt_invocations)
  have url: "region sqs \<noteq> ''localhost'' \<longrightarrow> (\<forall>i<k. getQueueURL (ms ! i) \<noteq> None)"
    using assms(2) attempt_ok by blast
  from run inv del sub url show ?thesis by blast
qed


subsection \<open>The batch of the example\<close>

lemma example_queue_name:
  "getQueueName (example_message fifo_arn i g) = Inr ''jobs.fifo''"
  "getQueueName (example_message standard_arn i g) = Inr ''jobs''"
  by (simp_all add: getQueueName_def example_message_def fifo_arn_def standard_arn_def
      one_line_def line_terminator_def)

lemma example_queue_url:
  "getQueueURL (example_message fifo_arn i g) =
     Some ''https://sqs.us-east-2.amazonaws.com/1234/app__jobs.fifo''"
  "getQueueURL (example_message standard_arn i g) =
     Some ''https://sqs.us-east-2.amazonaws.com/1234/app__jobs''"
  by (simp_all add: getQueueURL_def example_message_def fifo_arn_def standard_arn_def
      arn_groups_def one_line_def line_terminator_def)

lemma example_timeout: "min (getTimeout None) 60000 = 10"
  by (simp add: getTimeout_def minTimeout_def maxTimeout_def defaultTimeout_def)

lemma example_fields:
  "messageId (example_message arn i g) = i"
  "receiptHandle (example_message arn i g) = ''rh-'' @ i"
  "body (example_message arn i g) = ''{}''"
  "messageAttributes (example_message arn i g) = (\<lambda>n. None)"
  "MessageGroupId (example_message arn i g) = g"
  by (simp_all add: example_message_def)

lemma example_oracle: "getRemainingTimeInMillis example_env n = 60000"
  by (simp add: example_env_def)

lemma example_clients:
  "region remote_sqs = ''us-east-2''" "deleteMessage remote_sqs url h"
  "region local_sqs = ''localhost''"
  by (simp_all add: remote_sqs_def local_sqs_def)

lemma example_attempt:
  "attempt example_env remote_sqs (example_message fifo_arn i g) 60000 =
    (if i = ''B'' then (Inr False, [Invoked i])
     else (Inr True, [Invoked i,
         Deleted ''https://sqs.us-east-2.amazonaws.com/1234/app__jobs.fifo'' (''rh-'' @ i)]))"
  "attempt example_env local_sqs (example_message fifo_arn i g) 60000 =
    (if i = ''B'' then (Inr False, [Invoked i]) else (Inr True, [Invoked i]))"
  "attempt example_env remote_sqs (example_message standard_arn i g) 60000 =
    (if i = ''B'' then (Inr False, [Invoked i])
     else (Inr True, [Invoked i,
         Deleted ''https://sqs.us-east-2.amazonaws.com/1234/app__jobs'' (''rh-'' @ i)]))"
  by (simp_all add: attempt_def example_queue_name example_queue_url example_timeout
      try_message_def getPayload_def getMetadata_def truthy_string_def example_env_def
      example_module_def example_fields example_clients)

theorem fifo_batch_cutoff_witness:
  "\<exists>st' rest.
     handleFifoMessages example_env remote_sqs
       [example_message fifo_arn ''A'' (Some ''g1''), example_message fifo_arn ''B'' (Some ''g1''),
        example_message fifo_arn ''C'' (Some ''g1'')] start =
       (Inr [''B'', ''C''], st') \<and>
     invocations (trace st') = ''A'' # rest \<and> set rest \<subseteq> {''B''} \<and>
     deletions (trace st') =
       [(''https://sqs.us-east-2.amazonaws.com/1234/app__jobs.fifo'', ''rh-A'')]"
  using fifo_batch_cutoff [of 1
      "[example_message fifo_arn ''A'' (Some ''g1''), example_message fifo_arn ''B'' (Some ''g1''),
        example_message fifo_arn ''C'' (Some ''g1'')]"
      example_env remote_sqs start]
  by (simp add: example_attempt example_oracle example_clients start_def example_fields
      deletion_of_def example_queue_url)

text \<open>
  In local mode the first message of the example succeeds and the second fails: the
  trace holds the two handler invocations and no deletion.
\<close>

theorem fifo_local_mode_counterexample:
  "handleFifoMessages example_env local_sqs
     [example_message fifo_arn ''A'' (Some ''g1''), example_message fifo_arn ''B'' (Some ''g1''),
      example_message fifo_arn ''C'' (Some ''g1'')] start =
   (Inr [''B'', ''C''], \<lparr>calls = 2, trace = [Invoked ''A'', Invoked ''B'']\<rparr>)"
  by (simp add: ask_remaining_def handleOneMessage_def example_attempt example_oracle
      example_clients start_def example_fields)


section \<open>Queue timeouts\<close>







section \<open>Classification of a batch\<close>

lemma group_push_members:
  "(\<Union>(g', l) \<in> set (group_push g m groups). set l) = insert m (\<Union>(g', l) \<in> set groups. set l)"
  by (induction g m groups rule: group_push.induct) auto

lemma fifo_groups_members:
  "(\<Union>(g, l) \<in> set (fifo_groups ms groups). set l) =
   (\<Union>(g, l) \<in> set groups. set l) \<union> {x \<in> set ms. isFifo x}"
proof (induction ms arbitrary: groups)
  case Nil
  then show ?case by simp
next
  case (Cons m ms)
  show ?case
  proof (cases "MessageGroupId m")
    case None
    then have "\<not> isFifo m" by (simp add: isFifo_def truthy_string_def)
    with None Cons show ?thesis by auto
  next
    case (Some g)
    with Cons show ?thesis by (auto simp: group_push_members)
  qed
qed

text \<open>
  C3 (as amended). The batch dispatcher \<open>handleSQSMessages\<close> handles a batch with FIFO
  semantics exactly when the queue name of its first message ends with \<open>.fifo\<close>; the
  \<open>MessageGroupId\<close> of a message plays no part. The per-record handler of the Lambda
  runtime treats a message as FIFO exactly when its \<open>MessageGroupId\<close> is a non-empty
  string, whatever the queue name: the other messages are handled unordered, and the
  groups hold exactly the messages with a group id.
\<close>

theorem fifo_classification:
  "isFifoQueue (m\<lparr>MessageGroupId := g\<rparr>) = isFifoQueue m \<and>
   (isFifoQueue m = Inr True) = (\<exists>qn. getQueueName m = Inr qn \<and> suffix ''.fifo'' qn) \<and>
   handleSQSMessages e sqs (m # ms) st =
     (case isFifoQueue m of
        Inl err \<Rightarrow> (Inl err, st)
      | Inr fifo \<Rightarrow>
          if fifo then handleFifoMessages e sqs (m # ms) st
          else handleStandardMessages e sqs (m # ms) st) \<and>
   isFifo m = (\<exists>i. MessageGroupId m = Some i \<and> i \<noteq> []) \<and>
   isFifo (m\<lparr>eventSourceARN := a\<rparr>) = isFifo m \<and>
   set (unordered_messages ms) = {x \<in> set ms. \<not> isFifo x} \<and>
   (\<Union>(i, l) \<in> set (fifo_groups ms []). set l) = {x \<in> set ms. isFifo x}"
proof -
  have "isFifoQueue (m\<lparr>MessageGroupId := g\<rparr>) = isFifoQueue m"
    by (simp add: isFifoQueue_def getQueueName_def)
  moreover have "(isFifoQueue m = Inr True) = (\<exists>qn. getQueueName m = Inr qn \<and> suffix ''.fifo'' qn)"
    by (auto simp: isFifoQueue_def split: sum.splits)
  moreover have "handleSQSMessages e sqs (m # ms) st =
     (case isFifoQueue m of
        Inl err \<Rightarrow> (Inl err, st)
      | Inr fifo \<Rightarrow>
          if fifo then handleFifoMessages e sqs (m # ms) st
          else handleStandardMessages e sqs (m # ms) st)"
    by (simp add: handleSQSMessages_def)
  moreover have "isFifo m = (\<exists>i. MessageGroupId m = Some i \<and> i \<noteq> [])"
    by (auto simp: isFifo_def truthy_string_def split: option.splits)
  moreover have "isFifo (m\<lparr>eventSourceARN := a\<rparr>) = isFifo m"
    by (simp add: isFifo_def)
  moreover have "set (unordered_messages ms) = {x \<in> set ms. \<not> isFifo x}"
    by (auto simp: unordered_messages_def)
  moreover have "(\<Union>(i, l) \<in> set (fifo_groups ms []). set l) = {x \<in> set ms. isFifo x}"
    by (simp add: fifo_groups_members)
  ultimately show ?thesis by blast
qed

lemma example_suffix: "suffix ''.fifo'' ''jobs.fifo''" "\<not> suffix ''.fifo'' ''jobs''"
  by (simp_all add: suffix_to_prefix)

theorem fifo_classification_witness:
  "handleSQSMessages example_env remote_sqs
     [example_message fifo_arn ''B'' None, example_message fifo_arn ''C'' None] start =
   (Inr [''B'', ''C''], \<lparr>calls = 1, trace = [Invoked ''B'']\<rparr>)"
  using fifo_classification [where m = "example_message fifo_arn ''B'' None" and e = example_env
      and sqs = remote_sqs and ms = "[example_message fifo_arn ''C'' None]" and st = start]
  by (simp add: isFifoQueue_def example_queue_name ask_remaining_def handleOneMessage_def
      example_attempt example_oracle start_def example_fields example_suffix)

text \<open>
  Two messages with a \<open>MessageGroupId\<close> on the queue \<open>jobs\<close>: the batch is handled as
  a standard one, the second message runs although the first failed, and only the first
  is reported. A message without group id on \<open>jobs.fifo\<close> is FIFO for
  \<open>isFifoQueue\<close> and not for \<open>isFifo\<close>.
\<close>

theorem fifo_classification_counterexample:
  "MessageGroupId (example_message standard_arn ''B'' (Some ''g1'')) = Some ''g1'' \<and>
   isFifoQueue (example_message standard_arn ''B'' (Some ''g1'')) = Inr False \<and>
   handleSQSMessages example_env remote_sqs
     [example_message standard_arn ''B'' (Some ''g1''),
      example_message standard_arn ''C'' (Some ''g1'')] start =
   (Inr [''B''],
    \<lparr>calls = 2,
     trace = [Invoked ''B'', Invoked ''C'',
       Deleted ''https://sqs.us-east-2.amazonaws.com/1234/app__jobs'' ''rh-C'']\<rparr>) \<and>
   isFifoQueue (example_message fifo_arn ''A'' None) = Inr True \<and>
   isFifo (example_message fifo_arn ''A'' None) = False"
  by (simp add: handleSQSMessages_def isFifoQueue_def example_queue_name handleStandardMessages_def
      ask_remaining_def handleOneMessage_def example_attempt example_oracle start_def
      example_fields isFifo_def truthy_string_def example_suffix)


section \<open>Duplicate shapes\<close>

lemma map_set_fresh: "k \<notin> fst ` set kvs \<Longrightarrow> map_set k v kvs = kvs @ [(k, v)]"
  by (induction kvs) auto

lemma shapes_recorded_set:
  assumes "shapes_recorded (routes, dupes)" and "signature path \<notin> dupes"
  shows "shapes_recorded (map_set path route routes, insert (signature path) dupes)"
proof -
  from assms have fresh: "signature path \<notin> signature ` fst ` set routes"
    by (auto simp: shapes_recorded_def)
  then have "path \<notin> fst ` set routes" by blast
  then have eq: "map_set path route routes = routes @ [(path, route)]"
    by (rule map_set_fresh)
  have "signature path \<notin> set (map (\<lambda>(path, r). signature path) routes)"
    using fresh by (auto simp: image_iff split: prod.splits)
  with assms(1) show ?thesis
    unfolding eq by (auto simp: shapes_recorded_def)
qed

lemma add_file_recorded:
  "shapes_recorded tb \<Longrightarrow> add_file L f tb = Inr tb' \<Longrightarrow> shapes_recorded tb'"
  by (cases tb) (auto simp: add_file_def shapes_recorded_set split: sum.splits if_splits)

lemma add_queue_recorded:
  "shapes_recorded tb \<Longrightarrow> add_queue L q tb = Inr tb' \<Longrightarrow> shapes_recorded tb'"
  by (cases tb)
    (auto simp: add_queue_def Let_def shapes_recorded_set split: option.splits if_splits)

lemma add_files_recorded:
  "shapes_recorded tb \<Longrightarrow> add_files L fs tb = Inr tb' \<Longrightarrow> shapes_recorded tb'"
proof (induction fs arbitrary: tb)
  case Nil
  then show ?case by simp
next
  case (Cons f fs)
  then show ?case
    by (cases "add_file L f tb") (auto dest: add_file_recorded)
qed

lemma add_queues_recorded:
  "shapes_recorded tb \<Longrightarrow> add_queues L qs tb = Inr tb' \<Longrightarrow> shapes_recorded tb'"
proof (induction qs arbitrary: tb)
  case Nil
  then show ?case by simp
next
  case (Cons q qs)
  then show ?case
    by (cases "add_queue L q tb") (auto dest: add_queue_recorded)
qed

lemma loadRoutes_distinct:
  assumes "loadRoutes L fs qs = Inr routes"
  shows "distinct (map (\<lambda>(path, r). signature path) routes)"
proof -
  from assms obtain tb dupes where a: "add_files L fs ([], {}) = Inr tb"
    and b: "add_queues L qs tb = Inr (routes, dupes)"
    by (auto simp: loadRoutes_def split: sum.splits prod.splits)
  have "shapes_recorded ([], {})" by (simp add: shapes_recorded_def)
  from this a have "shapes_recorded tb" by (rule add_files_recorded)
  from this b have "shapes_recorded (routes, dupes)" by (rule add_queues_recorded)
  then show ?thesis by (simp add: shapes_recorded_def)
qed

text \<open>What a file that was added tells: its path is valid and its shape was new.\<close>

lemma add_file_Inr:
  assumes "add_file L f (routes, dupes) = Inr (routes', dupes')"
  shows "\<exists>path. file_path L f = Inr path \<and> signature path \<notin> dupes \<and>
    dupes' = insert (signature path) dupes"
  using assms by (auto simp: add_file_def split: sum.splits if_splits)

lemma add_files_Inr:
  assumes "add_files L fs (routes, dupes) = Inr (routes', dupes')"
  shows "dupes' = dupes \<union> file_shape L ` set fs \<and>
    (\<forall>f \<in> set fs. \<exists>path. file_path L f = Inr path) \<and>
    distinct (map (file_shape L) fs) \<and> file_shape L ` set fs \<inter> dupes = {}"
  using assms
proof (induction fs arbitrary: routes dupes)
  case Nil
  then show ?case by simp
next
  case (Cons f fs)
  from Cons.prems obtain r1 d1 where a: "add_file L f (routes, dupes) = Inr (r1, d1)"
    and b: "add_files L fs (r1, d1) = Inr (routes', dupes')"
    by (cases "add_file L f (routes, dupes)") auto
  from add_file_Inr [OF a] obtain path where p: "file_path L f = Inr path"
    and fresh: "signature path \<notin> dupes" and d1: "d1 = insert (signature path) dupes"
    by blast
  have sh: "file_shape L f = signature path" using p by (simp add: file_shape_def)
  from Cons.IH [OF b] have ih: "dupes' = d1 \<union> file_shape L ` set fs"
    "\<forall>f \<in> set fs. \<exists>path. file_path L f = Inr path"
    "distinct (map (file_shape L) fs)" "file_shape L ` set fs \<inter> d1 = {}"
    by blast+
  from ih(4) d1 sh have "file_shape L f \<notin> file_shape L ` set fs" by auto
  with ih d1 sh fresh p show ?case by auto
qed

lemma add_files_Inl:
  assumes "add_files L fs tb = Inl e"
  shows "\<exists>m tb'. m < length fs \<and> add_files L (take m fs) tb = Inr tb' \<and> add_file L (fs ! m) tb' = Inl e"
  using assms
proof (induction fs arbitrary: tb)
  case Nil
  then show ?case by simp
next
  case (Cons f fs)
  show ?case
  proof (cases "add_file L f tb")
    case (Inl e')
    with Cons.prems have "add_file L ((f # fs) ! 0) tb = Inl e" by simp
    moreover have "add_files L (take 0 (f # fs)) tb = Inr tb" by simp
    ultimately show ?thesis by blast
  next
    case (Inr tb1)
    with Cons.prems have "add_files L fs tb1 = Inl e" by simp
    from Cons.IH [OF this] obtain m tb' where m: "m < length fs"
      and t: "add_files L (take m fs) tb1 = Inr tb'" and f: "add_file L (fs ! m) tb' = Inl e"
      by blast
    from t Inr have "add_files L (take (Suc m) (f # fs)) tb = Inr tb'" by simp
    moreover from f have "add_file L ((f # fs) ! Suc m) tb' = Inl e" by simp
    moreover from m have "Suc m < length (f # fs)" by simp
    ultimately show ?thesis by blast
  qed
qed

lemma collision_fails:
  assumes "i < j" and "j < length fs"
    and "file_path L (fs ! i) = Inr p" and "file_path L (fs ! j) = Inr q"
    and "signature p = signature q"
  shows "\<exists>m err. m \<le> j \<and> add_files L fs ([], {}) = Inl (in_file (fs ! m) err) \<and>
       (file_path L (fs ! m) = Inl err \<or>
        (err = identical_route \<and>
         (\<exists>l<m. \<exists>a b. file_path L (fs ! l) = Inr a \<and> file_path L (fs ! m) = Inr b \<and>
            signature a = signature b)) \<or>
        file_route L (fs ! m) = Inl err)"
proof -
  have same: "file_shape L (fs ! i) = file_shape L (fs ! j)"
    using assms(3-5) by (simp add: file_shape_def)
  have no_run: "add_files L (take n fs) ([], {}) \<noteq> Inr tb" if "j < n" for n tb
  proof
    assume "add_files L (take n fs) ([], {}) = Inr tb"
    then have "distinct (map (file_shape L) (take n fs))"
      using add_files_Inr [of L "take n fs" "[]" "{}" "fst tb" "snd tb"] by simp
    moreover have "i < length (take n fs)" "j < length (take n fs)"
      using assms(1,2) that by simp_all
    moreover have "map (file_shape L) (take n fs) ! i = map (file_shape L) (take n fs) ! j"
      using same assms(1,2) that by simp
    ultimately have "i = j"
      by (metis length_map nth_eq_iff_index_eq)
    with assms(1) show False by simp
  qed
  have "add_files L fs ([], {}) \<noteq> Inr tb" for tb
    using no_run [of "length fs" tb] assms(2) by simp
  then obtain e where "add_files L fs ([], {}) = Inl e"
    by (cases "add_files L fs ([], {})") auto
  from add_files_Inl [OF this] obtain m tb' where m: "m < length fs"
    and t: "add_files L (take m fs) ([], {}) = Inr tb'"
    and f: "add_file L (fs ! m) tb' = Inl e"
    and e: "add_files L fs ([], {}) = Inl e"
    using \<open>add_files L fs ([], {}) = Inl e\<close> by blast
  have mj: "m \<le> j" using no_run [of m tb'] t by (cases "j < m") auto
  obtain routes' dupes' where tb': "tb' = (routes', dupes')" by (cases tb') auto
  from add_files_Inr [of L "take m fs" "[]" "{}" routes' dupes'] t tb'
  have dupes: "dupes' = file_shape L ` set (take m fs)"
    and paths: "\<forall>f \<in> set (take m fs). \<exists>path. file_path L f = Inr path"
    by auto
  show ?thesis
  proof (cases "file_path L (fs ! m)")
    case (Inl err)
    with f tb' have "e = in_file (fs ! m) err" by (simp add: add_file_def)
    with e mj Inl show ?thesis by blast
  next
    case (Inr b)
    show ?thesis
    proof (cases "signature b \<in> dupes'")
      case True
      with f tb' Inr have e': "e = in_file (fs ! m) identical_route"
        by (simp add: add_file_def)
      from True dupes obtain g where g: "g \<in> set (take m fs)" and "file_shape L g = signature b"
        by auto
      moreover from g paths obtain a where "file_path L g = Inr a" by blast
      ultimately have ga: "file_path L g = Inr a" "signature a = signature b"
        by (simp_all add: file_shape_def)
      from g obtain l where "l < length (take m fs)" "take m fs ! l = g"
        by (auto simp: in_set_conv_nth)
      then have "l < m" "fs ! l = g" using m by simp_all
      with ga Inr have "\<exists>l<m. \<exists>a b. file_path L (fs ! l) = Inr a \<and> file_path L (fs ! m) = Inr b \<and>
           signature a = signature b"
        by blast
      with e e' mj show ?thesis by blast
    next
      case False
      with f tb' Inr obtain err where "file_route L (fs ! m) = Inl err" "e = in_file (fs ! m) err"
        by (auto simp: add_file_def split: sum.splits)
      with e mj show ?thesis by blast
    qed
  qed
qed

text \<open>
  C6. When two files of the glob map to route paths with the same shape, loading the
  routes fails with the error \<open>Error in "file": ...\<close> of the first file at which
  the loop throws. That file comes no later than the second of the two, and it is an
  offending file: its module or its path is invalid, or its shape is the shape of an
  earlier file, or its configuration is invalid. When no file up to the second of the two
  is invalid by itself, the error is \<open>An identical route already exists\<close> and names a
  file whose shape is that of an earlier file. Whenever the routes are loaded, the shapes
  of the paths of the table, those of the queues included, are pairwise distinct.
\<close>

theorem duplicate_shape_rejected:
  "(i < j \<and> j < length fs \<and> file_path L (fs ! i) = Inr p \<and> file_path L (fs ! j) = Inr q \<and>
    signature p = signature q \<longrightarrow>
    (\<exists>m err. m \<le> j \<and> loadRoutes L fs qs = Inl (in_file (fs ! m) err) \<and>
       (file_path L (fs ! m) = Inl err \<or>
        (err = identical_route \<and>
         (\<exists>l<m. \<exists>a b. file_path L (fs ! l) = Inr a \<and> file_path L (fs ! m) = Inr b \<and>
            signature a = signature b)) \<or>
        file_route L (fs ! m) = Inl err))) \<and>
   (i < j \<and> j < length fs \<and> file_path L (fs ! i) = Inr p \<and> file_path L (fs ! j) = Inr q \<and>
    signature p = signature q \<and>
    (\<forall>l\<le>j. (\<exists>a. file_path L (fs ! l) = Inr a) \<and> (\<exists>r. file_route L (fs ! l) = Inr r)) \<longrightarrow>
    (\<exists>m l. l < m \<and> m \<le> j \<and> loadRoutes L fs qs = Inl (in_file (fs ! m) identical_route) \<and>
       file_shape L (fs ! l) = file_shape L (fs ! m))) \<and>
   (loadRoutes L fs qs = Inr routes \<longrightarrow> distinct (map (\<lambda>(path, r). signature path) routes))"
proof -
  have main: "\<exists>m err. m \<le> j \<and> loadRoutes L fs qs = Inl (in_file (fs ! m) err) \<and>
       (file_path L (fs ! m) = Inl err \<or>
        (err = identical_route \<and>
         (\<exists>l<m. \<exists>a b. file_path L (fs ! l) = Inr a \<and> file_path L (fs ! m) = Inr b \<and>
            signature a = signature b)) \<or>
        file_route L (fs ! m) = Inl err)"
    if "i < j \<and> j < length fs \<and> file_path L (fs ! i) = Inr p \<and> file_path L (fs ! j) = Inr q \<and>
      signature p = signature q"
  proof -
    from that have "\<exists>m err. m \<le> j \<and> add_files L fs ([], {}) = Inl (in_file (fs ! m) err) \<and>
       (file_path L (fs ! m) = Inl err \<or>
        (err = identical_route \<and>
         (\<exists>l<m. \<exists>a b. file_path L (fs ! l) = Inr a \<and> file_path L (fs ! m) = Inr b \<and>
            signature a = signature b)) \<or>
        file_route L (fs ! m) = Inl err)"
      by (intro collision_fails) blast+
    then obtain m err where m: "m \<le> j" "add_files L fs ([], {}) = Inl (in_file (fs ! m) err)"
      "file_path L (fs ! m) = Inl err \<or>
        (err = identical_route \<and>
         (\<exists>l<m. \<exists>a b. file_path L (fs ! l) = Inr a \<and> file_path L (fs ! m) = Inr b \<and>
            signature a = signature b)) \<or>
        file_route L (fs ! m) = Inl err"
      by blast
    from m(2) have "loadRoutes L fs qs = Inl (in_file (fs ! m) err)"
      by (simp add: loadRoutes_def)
    with m(1,3) show ?thesis by blast
  qed
  have only_collisions:
    "\<exists>m l. l < m \<and> m \<le> j \<and> loadRoutes L fs qs = Inl (in_file (fs ! m) identical_route) \<and>
       file_shape L (fs ! l) = file_shape L (fs ! m)"
    if h: "i < j \<and> j < length fs \<and> file_path L (fs ! i) = Inr p \<and> file_path L (fs ! j) = Inr q \<and>
      signature p = signature q"
      and valid: "\<forall>l\<le>j. (\<exists>a. file_path L (fs ! l) = Inr a) \<and> (\<exists>r. file_route L (fs ! l) = Inr r)"
  proof -
    from main [OF h] obtain m err where m: "m \<le> j"
      and e: "loadRoutes L fs qs = Inl (in_file (fs ! m) err)"
      and d: "file_path L (fs ! m) = Inl err \<or>
        (err = identical_route \<and>
         (\<exists>l<m. \<exists>a b. file_path L (fs ! l) = Inr a \<and> file_path L (fs ! m) = Inr b \<and>
            signature a = signature b)) \<or>
        file_route L (fs ! m) = Inl err"
      by blast
    from valid m obtain a r where "file_path L (fs ! m) = Inr a" "file_route L (fs ! m) = Inr r"
      by blast
    with d have "err = identical_route" and
      "\<exists>l<m. \<exists>a b. file_path L (fs ! l) = Inr a \<and> file_path L (fs ! m) = Inr b \<and>
         signature a = signature b"
      by auto
    then obtain l where "l < m" "file_shape L (fs ! l) = file_shape L (fs ! m)"
      by (auto simp: file_shape_def)
    with m e \<open>err = identical_route\<close> show ?thesis by blast
  qed
  have "distinct (map (\<lambda>(path, r). signature path) routes)" if "loadRoutes L fs qs = Inr routes"
    using that by (rule loadRoutes_distinct)
  with main only_collisions show ?thesis by blast
qed

subsection \<open>The two projects of the example\<close>

lemma example_shapes:
  "signature ''a/:x'' = ''a/:''" "signature ''a/:y'' = ''a/:''" "signature ''b/c'' = ''b/c''"
  by (simp_all add: signature.simps one_line_def line_terminator_def)

lemma example_valid:
  "verifyPathParameters (pathToRegexp example_loader) ''a/:x'' = None"
  "verifyPathParameters (pathToRegexp example_loader) ''a/:y'' = None"
  "verifyPathParameters (pathToRegexp example_loader) ''b/c'' = None"
  by (simp_all add: verifyPathParameters_def example_loader_def isValidPathPart_def
      ends_with_parameter_def name_char_def)

lemma example_load: "load_config example_loader f = Some example_config"
  by (simp add: example_loader_def)

lemma example_paths:
  "file_path example_loader ''api/a/[x].ts'' = Inr ''a/:x''"
  "file_path example_loader ''api/a/[y].ts'' = Inr ''a/:y''"
  "file_path example_loader ''api/b/c.ts'' = Inr ''b/c''"
  by (simp_all add: file_path_def example_load strip_api_def pathFromFilename_def
      extname_def basename_def dirname_def last_part_def suffix_to_prefix
      renamePathProperties_def rename_parameter_def rename_catch_all_def one_line_def
      line_terminator_def expandNestedRoutes_def example_valid)

lemma example_route: "\<exists>route. file_route example_loader f = Inr route"
  by (simp add: file_route_def example_load example_config_def checkContentType_def
      getTimeout_manifest_def)

lemma example_load_collision:
  "loadRoutes example_loader [''api/a/[x].ts'', ''api/a/[y].ts''] [] =
     Inl (in_file ''api/a/[y].ts''
       (Error ''An identical route already exists, maybe with different parameter names''))"
proof -
  obtain route where "file_route example_loader ''api/a/[x].ts'' = Inr route"
    using example_route by blast
  then show ?thesis
    by (simp add: loadRoutes_def add_file_def example_paths example_shapes identical_route_def)
qed

lemma example_load_ok:
  "\<exists>routes. loadRoutes example_loader [''api/a/[x].ts'', ''api/b/c.ts''] [] = Inr routes \<and>
     map fst routes = [''a/:x'', ''b/c'']"
proof -
  obtain r1 r2 where "file_route example_loader ''api/a/[x].ts'' = Inr r1"
    "file_route example_loader ''api/b/c.ts'' = Inr r2"
    using example_route by blast
  then show ?thesis
    by (simp add: loadRoutes_def add_file_def example_paths example_shapes)
qed

theorem duplicate_shape_rejected_witness:
  "(\<exists>m err. m \<le> 1 \<and>
      loadRoutes example_loader [''api/a/[x].ts'', ''api/a/[y].ts''] [] =
        Inl (in_file ([''api/a/[x].ts'', ''api/a/[y].ts''] ! m) err)) \<and>
   loadRoutes example_loader [''api/a/[x].ts'', ''api/a/[y].ts''] [] =
     Inl (Error (''Error in '' @ dq @ ''api/a/[y].ts'' @ dq @
       '': Error: An identical route already exists, maybe with different parameter names'')) \<and>
   (\<exists>routes. loadRoutes example_loader [''api/a/[x].ts'', ''api/b/c.ts''] [] = Inr routes \<and>
      map fst routes = [''a/:x'', ''b/c''] \<and>
      distinct (map (\<lambda>(path, r). signature path) routes))"
proof -
  let ?two = "[''api/a/[x].ts'', ''api/a/[y].ts'']"
  obtain routes where r1: "loadRoutes example_loader [''api/a/[x].ts'', ''api/b/c.ts''] [] = Inr routes"
    and r2: "map fst routes = [''a/:x'', ''b/c'']"
    using example_load_ok by (elim exE conjE)
  have hyp: "(0::nat) < 1 \<and> 1 < length ?two \<and>
    file_path example_loader (?two ! 0) = Inr ''a/:x'' \<and>
    file_path example_loader (?two ! 1) = Inr ''a/:y'' \<and>
    signature ''a/:x'' = signature ''a/:y''"
    by (simp add: example_paths example_shapes)
  have "\<exists>m err. m \<le> 1 \<and> loadRoutes example_loader ?two [] = Inl (in_file (?two ! m) err) \<and>
       (file_path example_loader (?two ! m) = Inl err \<or>
        (err = identical_route \<and>
         (\<exists>l<m. \<exists>a b. file_path example_loader (?two ! l) = Inr a \<and>
            file_path example_loader (?two ! m) = Inr b \<and> signature a = signature b)) \<or>
        file_route example_loader (?two ! m) = Inl err)"
    using hyp
    by (rule mp [OF conjunct1 [OF duplicate_shape_rejected
            [of 0 1 ?two example_loader "''a/:x''" "''a/:y''" "[]"]]])
  then have a: "\<exists>m err. m \<le> 1 \<and> loadRoutes example_loader ?two [] = Inl (in_file (?two ! m) err)"
    by (elim exE conjE) (intro exI conjI, assumption+)
  have b: "distinct (map (\<lambda>(path, r). signature path) routes)"
    using r1
    by (rule mp [OF conjunct2 [OF conjunct2 [OF duplicate_shape_rejected
            [of 0 0 "[''api/a/[x].ts'', ''api/b/c.ts'']" example_loader "[]" "[]" "[]" routes]]]])
  have c: "loadRoutes example_loader ?two [] =
     Inl (Error (''Error in '' @ dq @ ''api/a/[y].ts'' @ dq @
       '': Error: An identical route already exists, maybe with different parameter names''))"
    by (simp add: example_load_collision in_file_def error_string_def)
  show ?thesis
    by (intro conjI exI [of _ routes]) (rule a c r1 r2 b)+
qed

section \<open>CORS preflight\<close>

lemma cors_header_names:
  "toLowerCase ''Access-Control-Allow-Origin'' = ''access-control-allow-origin''"
  "toLowerCase ''Access-Control-Allow-Methods'' = ''access-control-allow-methods''"
  "toLowerCase ''Access-Control-Allow-Headers'' = ''access-control-allow-headers''"
  by (simp_all add: toLowerCase_def lower_char_def)

lemma getCorsHeaders_enabled:
  "rt_cors route \<Longrightarrow> getCorsHeaders route =
     Some [(''access-control-allow-origin'', ''*''),
           (''access-control-allow-methods'',
              (case rt_methods route of None \<Rightarrow> ''*'' | Some ms \<Rightarrow> join '', '' ms)),
           (''access-control-allow-headers'', ''Content-Type, Authorization'')]"
  by (simp add: getCorsHeaders_def new_Headers_def headers_set_def cors_header_names)

text \<open>
  C7. When the route found for the request enables CORS and the method is \<open>OPTIONS\<close>,
  \<open>handleHTTPRequest\<close> answers with status 204 and no body, with the headers
  \<open>Access-Control-Allow-Origin: *\<close>, \<open>Access-Control-Allow-Methods\<close> listing the
  methods of the route joined by a comma and a space (\<open>*\<close> when the route has none) and
  \<open>Access-Control-Allow-Headers: Content-Type, Authorization\<close>. No user code runs: the
  list of events is empty, so neither a middleware nor the handler is called, and the
  answer depends on nothing but the route: the lookup of the handler, the method check
  and the content-type check are not reached.
\<close>

theorem cors_preflight:
  assumes "findRoute H (rq_url request) = Inr f"
    and "rt_cors (fr_route f)"
    and "rq_method request = ''OPTIONS''"
  shows "\<exists>response.
    handleHTTPRequest H request = (response, []) \<and>
    res_status response = 204 \<and> res_body response = None \<and>
    res_headers response =
      [(''access-control-allow-origin'', ''*''),
       (''access-control-allow-methods'',
          (case rt_methods (fr_route f) of None \<Rightarrow> ''*'' | Some ms \<Rightarrow> join '', '' ms)),
       (''access-control-allow-headers'', ''Content-Type, Authorization'')] \<and>
    headers_get (res_headers response) ''Access-Control-Allow-Origin'' = Some ''*'' \<and>
    headers_get (res_headers response) ''Access-Control-Allow-Methods'' =
      Some (case rt_methods (fr_route f) of None \<Rightarrow> ''*'' | Some ms \<Rightarrow> join '', '' ms) \<and>
    headers_get (res_headers response) ''Access-Control-Allow-Headers'' =
      Some ''Content-Type, Authorization''"
  using assms
  by (simp add: handleHTTPRequest_def getCorsHeaders_enabled new_Response_def headers_get_def
      cors_header_names)


theorem cors_preflight_witness:
  "\<exists>response.
     handleHTTPRequest (example_http null_auth) (example_request ''OPTIONS'') = (response, []) \<and>
     res_status response = 204 \<and>
     headers_get (res_headers response) ''Access-Control-Allow-Methods'' = Some ''GET, POST''"
proof -
  let ?f = "\<lparr>fr_middleware = null_auth, fr_module = example_exports, fr_params = [],
        fr_route = example_route_x\<rparr>"
  have 1: "findRoute (example_http null_auth) (rq_url (example_request ''OPTIONS'')) = Inr ?f"
    by (simp add: example_http_def example_request_def)
  have 2: "rt_cors (fr_route ?f)" by (simp add: example_route_x_def)
  have 3: "rq_method (example_request ''OPTIONS'') = ''OPTIONS''"
    by (simp add: example_request_def)
  from cors_preflight [OF 1 2 3] obtain response where
    a: "handleHTTPRequest (example_http null_auth) (example_request ''OPTIONS'') = (response, [])"
    and b: "res_status response = 204"
    and c: "headers_get (res_headers response) ''Access-Control-Allow-Methods'' =
      Some (case rt_methods (fr_route ?f) of None \<Rightarrow> ''*'' | Some ms \<Rightarrow> join '', '' ms)"
    by (elim exE conjE)
  from c have "headers_get (res_headers response) ''Access-Control-Allow-Methods'' = Some ''GET, POST''"
    by (simp add: example_route_x_def)
  with a b show ?thesis by (intro exI conjI)
qed

section \<open>ETag and Cache-Control\<close>

lemma map_of_map_set: "map_of (map_set k v h) = (map_of h)(k \<mapsto> v)"
  by (induction h) (auto simp: fun_upd_twist)

lemma headers_get_set:
  "headers_get (headers_set n v h) n' =
     (if toLowerCase n' = toLowerCase n then Some v else headers_get h n')"
  by (simp add: headers_get_def headers_set_def map_of_map_set)

lemma etag_names:
  "toLowerCase ''ETag'' = ''etag''" "toLowerCase ''Cache-Control'' = ''cache-control''"
  by (simp_all add: toLowerCase_def lower_char_def)

lemma addCacheControl_etag:
  "headers_get (addCacheControl h cache) ''ETag'' = headers_get h ''ETag''"
  by (simp add: addCacheControl_def headers_get_set etag_names split: option.splits)

lemma addETag_get:
  "headers_get (addETag digest h content etag) ''ETag'' =
     (if headers_has h ''ETag'' \<or> \<not> truthy_etag etag then headers_get h ''ETag''
      else Some (case etag of ETagString s \<Rightarrow> s | _ \<Rightarrow> digest content))"
  by (simp add: addETag_def headers_get_set)

lemma resultToResponse_status:
  "res_status (resultToResponse digest cache corsHeaders etag res) =
     (case res of ResultResponse r \<Rightarrow> res_status r | ResultNothing \<Rightarrow> 204 | _ \<Rightarrow> 200)"
  by (simp add: resultToResponse_def new_Response_def Let_def split: result.splits)

lemma resultToResponse_headers:
  "res_headers (resultToResponse digest cache corsHeaders etag res) =
     (if res_status (resultToResponse digest cache corsHeaders etag res) = 200
      then addCacheControl
             (addETag digest (preset_headers corsHeaders res) (content_of res) etag) cache
      else preset_headers corsHeaders res)"
  by (simp add: resultToResponse_def new_Response_def Let_def preset_headers_def content_of_def
      split: result.splits option.splits)

text \<open>
  C8. A response that \<open>resultToResponse\<close> makes with a status other than 200 carries
  exactly the headers that were set before (the CORS headers and those of the response
  that the handler returned): no \<open>ETag\<close> and no \<open>Cache-Control\<close> is added. With status
  200, a truthy etag policy and no \<open>ETag\<close> set before, the response carries an
  \<open>ETag\<close>: the string of the policy, or else the MD5 digest of the content; in any
  other case with status 200 the \<open>ETag\<close> is the one set before, if any. Hence two
  responses with status 200, the policy \<open>true\<close>, no \<open>ETag\<close> set before and the same
  content carry the same \<open>ETag\<close>.
\<close>

theorem etag_rules:
  fixes digest :: "string \<Rightarrow> string" and cache cache' :: "nat option"
    and corsHeaders corsHeaders' :: "headers option" and etag :: etag_value and res res' :: result
  defines "out \<equiv> resultToResponse digest cache corsHeaders etag res"
    and "out' \<equiv> resultToResponse digest cache' corsHeaders' (ETagBool True) res'"
  shows "(res_status out \<noteq> 200 \<longrightarrow> res_headers out = preset_headers corsHeaders res) \<and>
    (res_status out = 200 \<and> truthy_etag etag \<and> \<not> headers_has (preset_headers corsHeaders res) ''ETag'' \<longrightarrow>
       headers_get (res_headers out) ''ETag'' =
         Some (case etag of ETagString s \<Rightarrow> s | _ \<Rightarrow> digest (content_of res))) \<and>
    (res_status out = 200 \<and> (\<not> truthy_etag etag \<or> headers_has (preset_headers corsHeaders res) ''ETag'') \<longrightarrow>
       headers_get (res_headers out) ''ETag'' = headers_get (preset_headers corsHeaders res) ''ETag'') \<and>
    (etag = ETagBool True \<and> res_status out = 200 \<and> res_status out' = 200 \<and>
     \<not> headers_has (preset_headers corsHeaders res) ''ETag'' \<and>
     \<not> headers_has (preset_headers corsHeaders' res') ''ETag'' \<and>
     content_of res = content_of res' \<longrightarrow>
       headers_get (res_headers out) ''ETag'' = Some (digest (content_of res)) \<and>
       headers_get (res_headers out') ''ETag'' = headers_get (res_headers out) ''ETag'')"
  unfolding out_def out'_def
  by (auto simp: resultToResponse_headers resultToResponse_status addCacheControl_etag
      addETag_get truthy_etag_def)


lemma example_preset:
  "\<not> headers_has (preset_headers None (ResultString b)) ''ETag''"
  "\<not> headers_has (preset_headers None (ResultObject b)) ''ETag''"
  by (simp_all add: preset_headers_def headers_has_def headers_get_def headers_set_def
      new_Headers_def toLowerCase_def lower_char_def)

theorem etag_rules_witness:
  "headers_get (res_headers (resultToResponse (\<lambda>content. ''md5:'' @ content) None None
       (ETagBool True) (ResultString ''hello''))) ''ETag'' = Some ''md5:hello'' \<and>
   headers_get (res_headers (resultToResponse (\<lambda>content. ''md5:'' @ content) (Some 60) None
       (ETagBool True) (ResultObject ''hello''))) ''ETag'' = Some ''md5:hello'' \<and>
   res_headers (resultToResponse (\<lambda>content. ''md5:'' @ content) (Some 60) None (ETagBool True)
       (ResultResponse \<lparr>res_status = 404, res_headers = [], res_body = Some ''hello''\<rparr>)) = []"
  using etag_rules [where digest = "\<lambda>content. ''md5:'' @ content" and cache = None
      and corsHeaders = None and etag = "ETagBool True" and res = "ResultString ''hello''"
      and cache' = "Some 60" and corsHeaders' = None and res' = "ResultObject ''hello''"]
    etag_rules [where digest = "\<lambda>content. ''md5:'' @ content" and cache = "Some 60"
      and corsHeaders = None and etag = "ETagBool True"
      and res = "ResultResponse \<lparr>res_status = 404, res_headers = [], res_body = Some ''hello''\<rparr>"]
  by (simp add: resultToResponse_status example_preset content_of_def)
    (simp add: preset_headers_def merge_headers_def new_Headers_def)

section \<open>Authentication\<close>











end
